theory Spec2Isabelle
  imports Complex_Main "HOL-Library.Char_ord" "HOL-Library.List_Lexorder"
begin

section \<open>Python floats: binary64 values with the rounding written out\<close>

text \<open>
  A Python \<^verbatim>\<open>float\<close> is an IEEE 754 binary64 number. A finite one is a rational, so the
  model computes with \<^typ>\<open>rat\<close> and rounds the exact result of every arithmetic operation
  to the nearest binary64 value, ties to even (\<open>fl\<close>). The model covers finite values:
  infinities, NaN and the sign of zero are outside it, and so is overflow beyond the
  binary64 range. A decimal literal such as \<^verbatim>\<open>0.056\<close> denotes \<open>fl (56 / 1000)\<close>. The
  arguments the source annotates as \<^verbatim>\<open>float\<close> are floats: a Python \<^verbatim>\<open>int\<close> passed in such a
  place is outside the model, and a property that holds for floats only says so with
  \<open>is_binary64\<close>.
\<close>

type_synonym float = rat

definition pow2 :: "int \<Rightarrow> rat" where
  "pow2 e = (if 0 \<le> e then 2 ^ nat e else 1 / 2 ^ nat (- e))"

definition round_half_even :: "rat \<Rightarrow> int" where
  "round_half_even x =
     (let n = \<lfloor>x\<rfloor>; d = x - of_int n
      in if d < 1 / 2 then n
         else if 1 / 2 < d then n + 1
         else if even n then n else n + 1)"

text \<open>\<open>bits n\<close> is the length of the binary numeral of \<open>n\<close>.\<close>

fun bits :: "nat \<Rightarrow> nat" where
  "bits n = (if n = 0 then 0 else Suc (bits (n div 2)))"

declare bits.simps [simp del]

text \<open>The binary exponent of a non-zero \<open>x\<close>: the \<open>e\<close> with \<open>2^e \<le> |x| < 2^(e+1)\<close>.\<close>

definition exponent :: "rat \<Rightarrow> int" where
  "exponent x =
     (let a = \<bar>x\<bar>
      in if 1 \<le> a then int (bits (nat \<lfloor>a\<rfloor>)) - 1
         else - int (bits (nat (\<lceil>1 / a\<rceil> - 1))))"

text \<open>
  Rounding to binary64: 53 significant bits, so the unit in the last place of a number
  with exponent \<open>e\<close> is \<open>2^(e - 52)\<close>; below the smallest normal exponent \<open>-1022\<close> the
  spacing stays \<open>2^(-1074)\<close> (subnormal numbers).
\<close>

definition fl :: "rat \<Rightarrow> float" where
  "fl x =
     (if x = 0 then 0
      else let u = pow2 (max (exponent x) (- 1022) - 52)
           in of_int (round_half_even (x / u)) * u)"

text \<open>The rationals that are finite binary64 values.\<close>

definition is_binary64 :: "rat \<Rightarrow> bool" where
  "is_binary64 x \<longleftrightarrow> fl x = x \<and> \<bar>x\<bar> < 2 ^ 1024"

definition fadd :: "float \<Rightarrow> float \<Rightarrow> float" where
  "fadd x y = fl (x + y)"

definition fsub :: "float \<Rightarrow> float \<Rightarrow> float" where
  "fsub x y = fl (x - y)"

definition fmul :: "float \<Rightarrow> float \<Rightarrow> float" where
  "fmul x y = fl (x * y)"

text \<open>
  Python's \<^verbatim>\<open>round(x, 2)\<close> on a float: the exact value of \<open>x\<close> is rounded to two decimal
  places, ties to even, and the decimal result is converted back to the nearest float.
\<close>

definition round2 :: "float \<Rightarrow> float" where
  "round2 x = fl (of_int (round_half_even (x * 100)) / 100)"

section \<open>Strings and exceptions\<close>

text \<open>
  A string is the list of its bytes in UTF-8. \<^verbatim>\<open>str.strip()\<close> removes leading and
  trailing whitespace; on ASCII strings the whitespace characters are the codes 9 to 13
  and 28 to 32, and \<open>strip\<close> is \<^verbatim>\<open>str.strip()\<close> on these strings. Python also removes
  whitespace beyond ASCII (U+0085, U+00A0 and others), which \<open>strip\<close> does not: a
  property of a trimmed argument is stated for ASCII strings (\<open>is_ascii\<close>).
\<close>

definition isspace :: "char \<Rightarrow> bool" where
  "isspace c = (let n = (of_char c :: nat) in (9 \<le> n \<and> n \<le> 13) \<or> (28 \<le> n \<and> n \<le> 32))"

definition strip :: "string \<Rightarrow> string" where
  "strip s = rev (dropWhile isspace (rev (dropWhile isspace s)))"

definition is_ascii :: "string \<Rightarrow> bool" where
  "is_ascii s = list_all (\<lambda>c. (of_char c :: nat) < 128) s"

text \<open>
  The exceptions the code raises, as values: the exception class and the message.
  \<open>ValueError\<close> and \<open>KeyError\<close> are raised by the Python code itself, \<open>IntegrityError\<close>
  (\<^verbatim>\<open>sqlite3.IntegrityError\<close>) by a statement that violates a constraint of the schema,
  and \<open>OverflowError\<close> by \<^verbatim>\<open>execute\<close> when it binds a Python \<^verbatim>\<open>int\<close> that does not fit the
  64-bit INTEGER of SQLite.
\<close>

datatype exc_class = ValueError | KeyError | IntegrityError | OverflowError

datatype exn = Exn (exc_class: exc_class) (message: string)

definition int_too_large :: exn where
  "int_too_large = Exn OverflowError ''Python int too large to convert to SQLite INTEGER''"

definition quoted :: "string \<Rightarrow> string" where
  "quoted s = CHR 0x27 # s @ [CHR 0x27]"

text \<open>The source writes "non-negative" with the hyphen U+2011, here in UTF-8.\<close>

definition non_negative :: string where
  "non_negative = ''non'' @ [CHR 0xE2, CHR 0x80, CHR 0x91] @ ''negative''"

section \<open>The SQLite database\<close>

text \<open>
  The two tables of \<^verbatim>\<open>_create_tables\<close>. A row of \<^verbatim>\<open>employees\<close> has the columns
  \<^verbatim>\<open>id, name, hourly_rate, dependents\<close>; a row of \<^verbatim>\<open>time_entries\<close> has
  \<^verbatim>\<open>entry_id, employee_id, entry_date, regular_hours, overtime_hours\<close>. Tables are lists
  of rows in insertion (rowid) order. \<open>entry_seq\<close> is the AUTOINCREMENT counter of
  \<^verbatim>\<open>time_entries\<close>. A date is kept as its \<^verbatim>\<open>isoformat()\<close> text, which is what the table
  stores.
\<close>

record employee_row =
  row_id :: string
  row_name :: string
  row_hourly_rate :: float
  row_dependents :: int

record time_entry_row =
  entry_id :: nat
  entry_employee_id :: string
  entry_date :: string
  entry_regular_hours :: float
  entry_overtime_hours :: float

record database =
  employees :: "employee_row list"
  time_entries :: "time_entry_row list"
  entry_seq :: nat

text \<open>
  A connection as \<^verbatim>\<open>sqlite3.connect(db_path)\<close> returns it. SQLite enforces foreign keys
  only on a connection that has executed \<^verbatim>\<open>PRAGMA foreign_keys = ON\<close>; the source never
  does, so every connection it opens has the setting off.
\<close>

record connection =
  foreign_keys :: bool

definition sqlite3_connect :: connection where
  "sqlite3_connect = \<lparr>foreign_keys = False\<rparr>"

text \<open>The database file after \<^verbatim>\<open>_create_tables\<close> has created it.\<close>

definition new_database :: database where
  "new_database = \<lparr>employees = [], time_entries = [], entry_seq = 0\<rparr>"

text \<open>\<^verbatim>\<open>SELECT * FROM employees WHERE id = ?\<close> followed by \<^verbatim>\<open>fetchone()\<close>.\<close>

definition select_employee :: "database \<Rightarrow> string \<Rightarrow> employee_row option" where
  "select_employee db eid = find (\<lambda>r. row_id r = eid) (employees db)"

text \<open>
  \<^verbatim>\<open>INSERT INTO employees\<close>: the parameters are bound first, where the dependents must
  fit 64 bits; then the PRIMARY KEY and the two CHECK constraints are enforced by SQLite.
\<close>

definition insert_employee :: "database \<Rightarrow> employee_row \<Rightarrow> exn + database" where
  "insert_employee db r =
     (if 2 ^ 63 \<le> row_dependents r \<or> row_dependents r < - (2 ^ 63) then Inl int_too_large
      else if row_id r \<in> set (map row_id (employees db))
      then Inl (Exn IntegrityError ''UNIQUE constraint failed: employees.id'')
      else if \<not> row_hourly_rate r \<ge> 0
      then Inl (Exn IntegrityError ''CHECK constraint failed: hourly_rate >= 0'')
      else if \<not> row_dependents r \<ge> 0
      then Inl (Exn IntegrityError ''CHECK constraint failed: dependents >= 0'')
      else Inr (db\<lparr>employees := employees db @ [r]\<rparr>))"

text \<open>
  \<^verbatim>\<open>UPDATE employees SET ... WHERE id = ?\<close> with the assignments the statement was built
  with: a column is assigned when its value is given, and the CHECK constraint of an
  assigned column is tested on each row the statement changes. The parameters are bound
  first, where the dependents must fit 64 bits.
\<close>

definition set_columns ::
    "string option \<Rightarrow> float option \<Rightarrow> int option \<Rightarrow> employee_row \<Rightarrow> employee_row" where
  "set_columns name hourly_rate dependents r =
     r\<lparr>row_name := (case name of None \<Rightarrow> row_name r | Some n \<Rightarrow> n),
       row_hourly_rate := (case hourly_rate of None \<Rightarrow> row_hourly_rate r | Some h \<Rightarrow> h),
       row_dependents := (case dependents of None \<Rightarrow> row_dependents r | Some d \<Rightarrow> d)\<rparr>"

definition update_employees ::
    "database \<Rightarrow> string option \<Rightarrow> float option \<Rightarrow> int option \<Rightarrow> string \<Rightarrow> exn + database" where
  "update_employees db name hourly_rate dependents eid =
     (let hit = eid \<in> set (map row_id (employees db))
      in if (case dependents of None \<Rightarrow> False | Some d \<Rightarrow> 2 ^ 63 \<le> d \<or> d < - (2 ^ 63))
         then Inl int_too_large
         else if hit \<and> (case hourly_rate of None \<Rightarrow> False | Some h \<Rightarrow> \<not> h \<ge> 0)
         then Inl (Exn IntegrityError ''CHECK constraint failed: hourly_rate >= 0'')
         else if hit \<and> (case dependents of None \<Rightarrow> False | Some d \<Rightarrow> \<not> d \<ge> 0)
         then Inl (Exn IntegrityError ''CHECK constraint failed: dependents >= 0'')
         else Inr (db\<lparr>employees :=
                      map (\<lambda>r. if row_id r = eid then set_columns name hourly_rate dependents r
                               else r) (employees db)\<rparr>))"

text \<open>
  \<^verbatim>\<open>DELETE FROM employees WHERE id = ?\<close>. The clause \<^verbatim>\<open>ON DELETE CASCADE\<close> of
  \<^verbatim>\<open>time_entries\<close> acts only on a connection that enforces foreign keys, and then removes
  the entries of each deleted employee.
\<close>

definition delete_employees :: "connection \<Rightarrow> database \<Rightarrow> string \<Rightarrow> database" where
  "delete_employees c db eid =
     (let db' = db\<lparr>employees := filter (\<lambda>r. row_id r \<noteq> eid) (employees db)\<rparr>
      in if foreign_keys c \<and> eid \<in> set (map row_id (employees db))
         then db'\<lparr>time_entries := filter (\<lambda>t. entry_employee_id t \<noteq> eid) (time_entries db)\<rparr>
         else db')"

text \<open>\<^verbatim>\<open>SELECT * FROM employees ORDER BY id\<close>: text compares bytewise.\<close>

definition select_employees_ordered :: "database \<Rightarrow> employee_row list" where
  "select_employees_ordered db = sort_key row_id (employees db)"

text \<open>
  \<^verbatim>\<open>INSERT INTO time_entries\<close>: the two CHECK constraints are enforced; the foreign key
  is checked only on a connection that enforces foreign keys.
\<close>

definition insert_time_entry ::
    "connection \<Rightarrow> database \<Rightarrow> string \<Rightarrow> string \<Rightarrow> float \<Rightarrow> float \<Rightarrow> exn + database" where
  "insert_time_entry c db eid date reg ot =
     (if \<not> reg \<ge> 0
      then Inl (Exn IntegrityError ''CHECK constraint failed: regular_hours >= 0'')
      else if \<not> ot \<ge> 0
      then Inl (Exn IntegrityError ''CHECK constraint failed: overtime_hours >= 0'')
      else if foreign_keys c \<and> select_employee db eid = None
      then Inl (Exn IntegrityError ''FOREIGN KEY constraint failed'')
      else Inr (db\<lparr>time_entries := time_entries db @
                   [\<lparr>entry_id = Suc (entry_seq db), entry_employee_id = eid, entry_date = date,
                     entry_regular_hours = reg, entry_overtime_hours = ot\<rparr>],
                 entry_seq := Suc (entry_seq db)\<rparr>))"

text \<open>
  The aggregate \<^verbatim>\<open>SUM\<close> over a REAL column: NULL when no row is selected, otherwise the
  values added one after the other in rowid order, starting from \<open>0.0\<close>. SQLite from
  version 3.44 carries a compensation term along; the result is the same whenever the
  partial sums are exact (\<open>exact_sums\<close> below), as for a single value and for the whole
  hours evaluated below, and a property of a sum of several values is stated for exact
  partial sums.
\<close>

definition sql_sum :: "float list \<Rightarrow> float option" where
  "sql_sum xs = (if xs = [] then None else Some (foldl fadd 0 xs))"

definition entries_of :: "database \<Rightarrow> string \<Rightarrow> time_entry_row list" where
  "entries_of db eid = filter (\<lambda>t. entry_employee_id t = eid) (time_entries db)"

section \<open>Module 2: \<^verbatim>\<open>EmployeeDatabase\<close>\<close>

text \<open>
  Every method takes the database as it is stored and returns what the method returns or
  raises (\<open>Inl\<close> the exception) together with the database as the method leaves it.
  Each statement is committed as it is executed; a statement that fails changes nothing.
\<close>

type_synonym 'a outcome = "(exn + 'a) \<times> database"

definition get_employee :: "database \<Rightarrow> string \<Rightarrow> employee_row option" where
  "get_employee db employee_id = select_employee db employee_id"

definition add_employee :: "database \<Rightarrow> string \<Rightarrow> string \<Rightarrow> float \<Rightarrow> int \<Rightarrow> unit outcome" where
  "add_employee db employee_id0 name0 hourly_rate dependents =
     (let employee_id = strip employee_id0;
          name = strip name0
      in if employee_id = [] then (Inl (Exn ValueError ''Employee ID cannot be empty''), db)
         else if name = [] then (Inl (Exn ValueError ''Employee name cannot be empty''), db)
         else if hourly_rate < 0
         then (Inl (Exn ValueError (''Hourly rate must be '' @ non_negative)), db)
         else if dependents < 0
         then (Inl (Exn ValueError (''Dependents must be '' @ non_negative)), db)
         else if get_employee db employee_id \<noteq> None
         then (Inl (Exn ValueError
                 (''Employee with ID '' @ quoted employee_id @ '' already exists'')), db)
         else (case insert_employee db
                      \<lparr>row_id = employee_id, row_name = name,
                       row_hourly_rate = hourly_rate, row_dependents = dependents\<rparr> of
                 Inl e \<Rightarrow> (Inl e, db)
               | Inr db' \<Rightarrow> (Inr (), db')))"

text \<open>
  The keyword arguments of \<^verbatim>\<open>update_employee\<close> default to \<^verbatim>\<open>None\<close>. The checks run in
  the order of the source: existence, then name, rate and dependents, then whether any
  assignment was collected.
\<close>

definition update_employee ::
    "database \<Rightarrow> string \<Rightarrow> string option \<Rightarrow> float option \<Rightarrow> int option \<Rightarrow> unit outcome" where
  "update_employee db employee_id name0 hourly_rate dependents =
     (if get_employee db employee_id = None
      then (Inl (Exn KeyError (''Employee '' @ quoted employee_id @ '' not found'')), db)
      else let name = map_option strip name0
           in if name = Some [] then (Inl (Exn ValueError ''Employee name cannot be empty''), db)
              else if (case hourly_rate of None \<Rightarrow> False | Some h \<Rightarrow> h < 0)
              then (Inl (Exn ValueError (''Hourly rate must be '' @ non_negative)), db)
              else if (case dependents of None \<Rightarrow> False | Some d \<Rightarrow> d < 0)
              then (Inl (Exn ValueError (''Dependents must be '' @ non_negative)), db)
              else if name = None \<and> hourly_rate = None \<and> dependents = None
              then (Inl (Exn ValueError ''No updates provided''), db)
              else (case update_employees db name hourly_rate dependents employee_id of
                      Inl e \<Rightarrow> (Inl e, db)
                    | Inr db' \<Rightarrow> (Inr (), db')))"

text \<open>\<open>self\<close> is the connection the \<^verbatim>\<open>EmployeeDatabase\<close> opened in its constructor.\<close>

definition delete_employee :: "connection \<Rightarrow> database \<Rightarrow> string \<Rightarrow> database" where
  "delete_employee self db employee_id = delete_employees self db employee_id"

definition list_employees :: "database \<Rightarrow> employee_row list" where
  "list_employees db = select_employees_ordered db"

section \<open>Module 3: \<^verbatim>\<open>TimeTracker\<close>\<close>

text \<open>
  A \<^verbatim>\<open>TimeTracker\<close> holds its own connection and the overtime threshold, 40.0 unless
  the constructor is given another.
\<close>

record TimeTracker =
  conn :: connection
  overtime_threshold :: float

definition new_TimeTracker :: "float \<Rightarrow> TimeTracker" where
  "new_TimeTracker threshold = \<lparr>conn = sqlite3_connect, overtime_threshold = threshold\<rparr>"

definition default_TimeTracker :: TimeTracker where
  "default_TimeTracker = new_TimeTracker 40"

text \<open>
  \<open>today\<close> is the value of \<^verbatim>\<open>date.today()\<close> at the call, used when no \<open>entry_date\<close> is
  given. The hours and the threshold are floats, so the difference is rounded once.
\<close>

definition record_hours ::
    "TimeTracker \<Rightarrow> string \<Rightarrow> database \<Rightarrow> string \<Rightarrow> float \<Rightarrow> string option \<Rightarrow> unit outcome" where
  "record_hours self today db employee_id hours_worked entry_date0 =
     (if hours_worked < 0 then (Inl (Exn ValueError ''Hours worked cannot be negative''), db)
      else if select_employee db employee_id = None
      then (Inl (Exn ValueError (''Employee '' @ quoted employee_id @ '' does not exist'')), db)
      else let reg_hours = min hours_worked (overtime_threshold self);
               ot_hours = max 0 (fsub hours_worked (overtime_threshold self));
               entry_date = (case entry_date0 of None \<Rightarrow> today | Some d \<Rightarrow> d)
           in (case insert_time_entry (conn self) db employee_id entry_date reg_hours ot_hours of
                 Inl e \<Rightarrow> (Inl e, db)
               | Inr db' \<Rightarrow> (Inr (), db')))"

text \<open>The entries of an employee ordered by date (ISO dates compare as texts).\<close>

definition get_time_entries :: "database \<Rightarrow> string \<Rightarrow> time_entry_row list" where
  "get_time_entries db employee_id = sort_key entry_date (entries_of db employee_id)"

text \<open>\<^verbatim>\<open>row["regular_sum"] or 0.0\<close>: a NULL sum and a zero sum both give \<open>0.0\<close>.\<close>

definition or_zero :: "float option \<Rightarrow> float" where
  "or_zero v = (case v of None \<Rightarrow> 0 | Some x \<Rightarrow> if x = 0 then 0 else x)"

definition summarise_hours :: "database \<Rightarrow> string \<Rightarrow> float \<times> float" where
  "summarise_hours db employee_id =
     (let regular_sum = or_zero (sql_sum (map entry_regular_hours (entries_of db employee_id)));
          overtime_sum = or_zero (sql_sum (map entry_overtime_hours (entries_of db employee_id)))
      in (regular_sum, overtime_sum))"

section \<open>Module 4: \<^verbatim>\<open>PayrollCalculator\<close>\<close>

record PayResult =
  employee_id :: string
  name :: string
  hours_worked :: float
  hourly_rate :: float
  regular_hours :: float
  overtime_hours :: float
  gross_pay :: float
  state_tax :: float
  federal_tax :: float
  net_pay :: float

text \<open>The decimal literals of the source denote the nearest floats.\<close>

definition STATE_TAX_RATE :: float where
  "STATE_TAX_RATE = fl (56 / 1000)"

definition FEDERAL_TAX_RATE :: float where
  "FEDERAL_TAX_RATE = fl (79 / 1000)"

definition OVERTIME_MULTIPLIER :: float where
  "OVERTIME_MULTIPLIER = fl (15 / 10)"

text \<open>
  The four amounts before they are rounded for the result, as
  \<^verbatim>\<open>calculate_employee_pay\<close> computes them from the rate and the two hour totals.
\<close>

definition gross_of :: "float \<Rightarrow> float \<Rightarrow> float \<Rightarrow> float" where
  "gross_of rate reg_hours ot_hours =
     fadd (fmul reg_hours rate) (fmul (fmul ot_hours rate) OVERTIME_MULTIPLIER)"

definition state_tax_of :: "float \<Rightarrow> float" where
  "state_tax_of gross = fmul gross STATE_TAX_RATE"

definition federal_tax_of :: "float \<Rightarrow> float" where
  "federal_tax_of gross = fmul gross FEDERAL_TAX_RATE"

definition net_of :: "float \<Rightarrow> float" where
  "net_of gross = fsub (fsub gross (state_tax_of gross)) (federal_tax_of gross)"

definition calculate_employee_pay :: "database \<Rightarrow> string \<Rightarrow> exn + PayResult" where
  "calculate_employee_pay db eid =
     (case get_employee db eid of
        None \<Rightarrow> Inl (Exn KeyError (''Employee '' @ quoted eid @ '' not found''))
      | Some row \<Rightarrow>
          let (reg_hours, ot_hours) = summarise_hours db eid;
              total_hours = fadd reg_hours ot_hours;
              gross = gross_of (row_hourly_rate row) reg_hours ot_hours;
              state = state_tax_of gross;
              federal = federal_tax_of gross;
              net = net_of gross
          in Inr \<lparr>employee_id = eid, name = row_name row, hours_worked = total_hours,
                  hourly_rate = row_hourly_rate row, regular_hours = reg_hours,
                  overtime_hours = ot_hours, gross_pay = round2 gross,
                  state_tax = round2 state, federal_tax = round2 federal,
                  net_pay = round2 net\<rparr>)"

text \<open>
  The loop of \<^verbatim>\<open>calculate_all\<close> over the listed rows; an exception of
  \<^verbatim>\<open>calculate_employee_pay\<close> leaves the loop.
\<close>

fun calculate_loop :: "database \<Rightarrow> employee_row list \<Rightarrow> PayResult list \<Rightarrow> exn + PayResult list" where
  "calculate_loop db [] results = Inr results"
| "calculate_loop db (row # rows) results =
     (case calculate_employee_pay db (row_id row) of
        Inl e \<Rightarrow> Inl e
      | Inr p \<Rightarrow> calculate_loop db rows (results @ [p]))"

definition calculate_all :: "database \<Rightarrow> exn + PayResult list" where
  "calculate_all db = calculate_loop db (list_employees db) []"

section \<open>Call sequences used in the properties\<close>

text \<open>A caller that records a list of hours for one employee, one call after the other.\<close>

fun record_all :: "TimeTracker \<Rightarrow> string \<Rightarrow> database \<Rightarrow> string \<Rightarrow> float list \<Rightarrow> database" where
  "record_all self today db eid [] = db"
| "record_all self today db eid (h # hs) =
     record_all self today (snd (record_hours self today db eid h None)) eid hs"

text \<open>
  The additions of \<^verbatim>\<open>SUM\<close> over the values \<open>xs\<close>, started at \<open>s\<close>, are all exact: no
  partial sum is rounded. Then float summation in this order returns the exact sum, with
  or without a compensation term.
\<close>

fun exact_sums :: "float \<Rightarrow> float list \<Rightarrow> bool" where
  "exact_sums s [] = True"
| "exact_sums s (x # xs) = (fadd s x = s + x \<and> exact_sums (s + x) xs)"

text \<open>
  The database of \<^verbatim>\<open>_run_tests\<close> for employee \<^verbatim>\<open>T002\<close>: the employee is added with rate
  10.0 and 50 hours are recorded.
\<close>

definition db_one :: database where
  "db_one = snd (add_employee new_database ''T002'' ''Overtime User'' 10 0)"

definition db_T002 :: database where
  "db_T002 = snd (record_hours default_TimeTracker ''2024-01-01'' db_one ''T002'' 50 None)"

text \<open>Two employees, added in descending order of their ids.\<close>

definition db_two :: database where
  "db_two = snd (add_employee (snd (add_employee new_database ''E002'' ''Bob Example'' 15 0))
                   ''E001'' ''Alice Example'' 20 2)"

text \<open>An employee paid 36.50 an hour with one recording of 39 hours.\<close>

definition db_half :: database where
  "db_half = snd (record_hours default_TimeTracker ''2024-01-01''
                   (snd (add_employee new_database ''E001'' ''Alice Example'' (73 / 2) 0))
                   ''E001'' 39 None)"

text \<open>
  The gross pay of a result before rounding, recomputed from the rate and the hours the
  result carries.
\<close>

definition unrounded_gross :: "PayResult \<Rightarrow> float" where
  "unrounded_gross p = gross_of (hourly_rate p) (regular_hours p) (overtime_hours p)"

text \<open>The class of the exception a call raised, if it raised one.\<close>

definition raised_class :: "exn + 'a \<Rightarrow> exc_class option" where
  "raised_class r = (case r of Inl e \<Rightarrow> Some (exc_class e) | Inr _ \<Rightarrow> None)"

section \<open>Properties of the employee table\<close>

lemma select_employee_None_iff:
  "select_employee db eid = None \<longleftrightarrow> eid \<notin> set (map row_id (employees db))"
  by (auto simp: select_employee_def find_None_iff)

lemma set_columns_id [simp]: "row_id (set_columns nm rate deps r) = row_id r"
  by (simp add: set_columns_def)

lemma find_map_cond:
  assumes "\<And>r. row_id (g r) = row_id r"
  shows "find (\<lambda>r. row_id r = k) (map (\<lambda>r. if row_id r = eid then g r else r) rows) =
     (if k = eid then map_option g (find (\<lambda>r. row_id r = k) rows)
      else find (\<lambda>r. row_id r = k) rows)"
  by (induction rows) (auto simp: assms)

lemma get_employee_after_update:
  "get_employee (db\<lparr>employees :=
        map (\<lambda>r. if row_id r = eid then set_columns nm rate deps r else r) (employees db)\<rparr>) k =
   (if k = eid then map_option (set_columns nm rate deps) (get_employee db eid)
    else get_employee db k)"
  by (simp add: get_employee_def select_employee_def find_map_cond)

lemma update_employee_absent:
  "get_employee db eid = None \<Longrightarrow>
   update_employee db eid nm rate deps =
     (Inl (Exn KeyError (''Employee '' @ quoted eid @ '' not found'')), db)"
  by (simp add: update_employee_def)

lemma update_employee_no_fields:
  "get_employee db eid \<noteq> None \<Longrightarrow>
   update_employee db eid None None None = (Inl (Exn ValueError ''No updates provided''), db)"
  by (simp add: update_employee_def)

lemma update_employee_valid:
  assumes "get_employee db eid \<noteq> None"
    and "\<forall>n. nm = Some n \<longrightarrow> strip n \<noteq> []"
    and "\<forall>h. rate = Some h \<longrightarrow> 0 \<le> h"
    and "\<forall>d. deps = Some d \<longrightarrow> 0 \<le> d \<and> d < 2 ^ 63"
    and "nm \<noteq> None \<or> rate \<noteq> None \<or> deps \<noteq> None"
  shows "update_employee db eid nm rate deps =
     (Inr (), db\<lparr>employees :=
        map (\<lambda>r. if row_id r = eid then set_columns (map_option strip nm) rate deps r else r)
          (employees db)\<rparr>)"
  using assms
  by (cases nm; cases rate; cases deps)
     (auto simp: update_employee_def update_employees_def Let_def)

lemma add_employee_existing:
  assumes "get_employee db (strip eid) \<noteq> None"
  shows "\<exists>m. add_employee db eid nm rate deps = (Inl (Exn ValueError m), db) \<and>
           (strip eid \<noteq> [] \<and> strip nm \<noteq> [] \<and> 0 \<le> rate \<and> 0 \<le> deps \<longrightarrow>
              m = ''Employee with ID '' @ quoted (strip eid) @ '' already exists'')"
  using assms by (auto simp: add_employee_def Let_def)

lemma strip_plain [simp]: "strip ''T002'' = ''T002''" "strip ''Overtime User'' = ''Overtime User''"
  "strip ''E001'' = ''E001''" "strip ''E002'' = ''E002''"
  "strip ''Alice Example'' = ''Alice Example''" "strip ''Bob Example'' = ''Bob Example''"
  by (simp_all add: strip_def isspace_def)

lemma db_one_eq:
  "db_one = \<lparr>employees = [\<lparr>row_id = ''T002'', row_name = ''Overtime User'',
                            row_hourly_rate = 10, row_dependents = 0\<rparr>],
            time_entries = [], entry_seq = 0\<rparr>"
  by (simp add: db_one_def add_employee_def new_database_def get_employee_def
      select_employee_def insert_employee_def)

lemma db_two_eq:
  "db_two = \<lparr>employees = [\<lparr>row_id = ''E002'', row_name = ''Bob Example'',
                            row_hourly_rate = 15, row_dependents = 0\<rparr>,
                          \<lparr>row_id = ''E001'', row_name = ''Alice Example'',
                            row_hourly_rate = 20, row_dependents = 2\<rparr>],
            time_entries = [], entry_seq = 0\<rparr>"
  by (simp add: db_two_def add_employee_def new_database_def get_employee_def
      select_employee_def insert_employee_def)

text \<open>
  C10: \<^verbatim>\<open>update_employee\<close> looks the employee up before it examines any field: for an id
  that is not in the table it raises the \<open>KeyError\<close> and leaves the database as it was,
  whatever fields are supplied, valid or not, and also when none is supplied.
\<close>

theorem update_employee_not_found_first:
  "get_employee db eid = None \<Longrightarrow>
   update_employee db eid nm rate deps =
     (Inl (Exn KeyError (''Employee '' @ quoted eid @ '' not found'')), db)"
  by (rule update_employee_absent)

theorem update_employee_not_found_first_witness:
  "get_employee db_one ''E404'' = None \<and>
   update_employee db_one ''E404'' (Some ''  '') (Some (- 1)) (Some (- 2)) =
     (Inl (Exn KeyError (''Employee '' @ quoted ''E404'' @ '' not found'')), db_one) \<and>
   update_employee db_one ''E404'' None None None =
     (Inl (Exn KeyError (''Employee '' @ quoted ''E404'' @ '' not found'')), db_one)"
proof -
  have absent: "get_employee db_one ''E404'' = None"
    by (simp add: db_one_eq get_employee_def select_employee_def)
  show ?thesis
    using absent
      update_employee_not_found_first [OF absent, of "Some ''  ''" "Some (- 1)" "Some (- 2)"]
      update_employee_not_found_first [OF absent, of None None None]
    by simp
qed

text \<open>
  C7: for an employee in the table and at least one supplied field, each supplied value
  valid (an ASCII name that is not empty after trimming, a float rate that is not negative,
  dependents that are not negative and fit the 64-bit INTEGER), \<^verbatim>\<open>update_employee\<close>
  assigns exactly the supplied columns of the rows with that id, the name trimmed; every
  other column, every other row and the time entries stay as they were. It raises
  \<open>KeyError\<close> when the id is absent, and \<open>ValueError\<close> when the employee exists and no
  field is supplied.
\<close>

theorem update_employee_changes_supplied_fields:
  "(get_employee db eid \<noteq> None \<and> (\<forall>n. nm = Some n \<longrightarrow> is_ascii n \<and> strip n \<noteq> []) \<and>
    (\<forall>h. rate = Some h \<longrightarrow> is_binary64 h \<and> 0 \<le> h) \<and>
    (\<forall>d. deps = Some d \<longrightarrow> 0 \<le> d \<and> d < 2 ^ 63) \<and>
    (nm \<noteq> None \<or> rate \<noteq> None \<or> deps \<noteq> None) \<longrightarrow>
      update_employee db eid nm rate deps =
        (Inr (), db\<lparr>employees :=
           map (\<lambda>r. if row_id r = eid
                    then r\<lparr>row_name := (case nm of None \<Rightarrow> row_name r | Some n \<Rightarrow> strip n),
                           row_hourly_rate := (case rate of None \<Rightarrow> row_hourly_rate r | Some h \<Rightarrow> h),
                           row_dependents := (case deps of None \<Rightarrow> row_dependents r | Some d \<Rightarrow> d)\<rparr>
                    else r) (employees db)\<rparr>) \<and>
      (\<forall>k. k \<noteq> eid \<longrightarrow> get_employee (snd (update_employee db eid nm rate deps)) k = get_employee db k) \<and>
      get_employee (snd (update_employee db eid nm rate deps)) eid =
        map_option (\<lambda>r. r\<lparr>row_name := (case nm of None \<Rightarrow> row_name r | Some n \<Rightarrow> strip n),
                           row_hourly_rate := (case rate of None \<Rightarrow> row_hourly_rate r | Some h \<Rightarrow> h),
                           row_dependents := (case deps of None \<Rightarrow> row_dependents r | Some d \<Rightarrow> d)\<rparr>)
          (get_employee db eid)) \<and>
   (get_employee db eid = None \<longrightarrow>
      update_employee db eid nm rate deps =
        (Inl (Exn KeyError (''Employee '' @ quoted eid @ '' not found'')), db)) \<and>
   (get_employee db eid \<noteq> None \<longrightarrow>
      update_employee db eid None None None =
        (Inl (Exn ValueError ''No updates provided''), db))"
proof -
  have cols: "set_columns (map_option strip nm) rate deps =
      (\<lambda>r. r\<lparr>row_name := (case nm of None \<Rightarrow> row_name r | Some n \<Rightarrow> strip n),
              row_hourly_rate := (case rate of None \<Rightarrow> row_hourly_rate r | Some h \<Rightarrow> h),
              row_dependents := (case deps of None \<Rightarrow> row_dependents r | Some d \<Rightarrow> d)\<rparr>)"
    by (rule ext) (simp add: set_columns_def split: option.splits)
  have valid: "update_employee db eid nm rate deps =
     (Inr (), db\<lparr>employees :=
        map (\<lambda>r. if row_id r = eid then set_columns (map_option strip nm) rate deps r else r)
          (employees db)\<rparr>)"
    if "get_employee db eid \<noteq> None" "\<forall>n. nm = Some n \<longrightarrow> is_ascii n \<and> strip n \<noteq> []"
      "\<forall>h. rate = Some h \<longrightarrow> is_binary64 h \<and> 0 \<le> h"
      "\<forall>d. deps = Some d \<longrightarrow> 0 \<le> d \<and> d < 2 ^ 63"
      "nm \<noteq> None \<or> rate \<noteq> None \<or> deps \<noteq> None"
    using that by (intro update_employee_valid) simp_all
  show ?thesis
    using valid
      get_employee_after_update [where db = db and eid = eid and nm = "map_option strip nm"
        and rate = rate and deps = deps]
      update_employee_absent [of db eid nm rate deps]
      update_employee_no_fields [of db eid]
    by (simp add: cols)
qed

theorem update_employee_changes_supplied_fields_witness:
  "get_employee db_two ''E001'' \<noteq> None \<and> is_ascii '' Alice B '' \<and>
   update_employee db_two ''E001'' (Some '' Alice B '') None (Some 3) =
     (Inr (), \<lparr>employees = [\<lparr>row_id = ''E002'', row_name = ''Bob Example'',
                              row_hourly_rate = 15, row_dependents = 0\<rparr>,
                            \<lparr>row_id = ''E001'', row_name = ''Alice B'',
                              row_hourly_rate = 20, row_dependents = 3\<rparr>],
              time_entries = [], entry_seq = 0\<rparr>) \<and>
   get_employee db_two ''E404'' = None \<and>
   update_employee db_two ''E404'' (Some '' Alice B '') None (Some 3) =
     (Inl (Exn KeyError (''Employee '' @ quoted ''E404'' @ '' not found'')), db_two) \<and>
   update_employee db_two ''E001'' None None None =
     (Inl (Exn ValueError ''No updates provided''), db_two)"
proof -
  have present: "get_employee db_two ''E001'' \<noteq> None"
    by (simp add: db_two_eq get_employee_def select_employee_def)
  have absent: "get_employee db_two ''E404'' = None"
    by (simp add: db_two_eq get_employee_def select_employee_def)
  have trimmed: "strip '' Alice B '' = ''Alice B''"
    by (simp add: strip_def isspace_def)
  have ascii: "is_ascii '' Alice B ''"
    by (simp add: is_ascii_def)
  have rows: "employees db_two = [\<lparr>row_id = ''E002'', row_name = ''Bob Example'',
                              row_hourly_rate = 15, row_dependents = 0\<rparr>,
                            \<lparr>row_id = ''E001'', row_name = ''Alice Example'',
                              row_hourly_rate = 20, row_dependents = 2\<rparr>]"
    "time_entries db_two = []" "entry_seq db_two = 0"
    by (simp_all add: db_two_eq)
  have one: "update_employee db_two ''E001'' (Some '' Alice B '') None (Some 3) =
     (Inr (), \<lparr>employees = [\<lparr>row_id = ''E002'', row_name = ''Bob Example'',
                              row_hourly_rate = 15, row_dependents = 0\<rparr>,
                            \<lparr>row_id = ''E001'', row_name = ''Alice B'',
                              row_hourly_rate = 20, row_dependents = 3\<rparr>],
              time_entries = [], entry_seq = 0\<rparr>)"
    using update_employee_changes_supplied_fields
      [of db_two "''E001''" "Some '' Alice B ''" None "Some 3"] present ascii
    by (simp add: trimmed rows)
  have two: "update_employee db_two ''E404'' (Some '' Alice B '') None (Some 3) =
     (Inl (Exn KeyError (''Employee '' @ quoted ''E404'' @ '' not found'')), db_two)"
    using update_employee_changes_supplied_fields
      [of db_two "''E404''" "Some '' Alice B ''" None "Some 3"] absent
    by simp
  have three: "update_employee db_two ''E001'' None None None =
     (Inl (Exn ValueError ''No updates provided''), db_two)"
    using update_employee_changes_supplied_fields [of db_two "''E001''" None None None] present
    by simp
  from present ascii absent one two three show ?thesis by simp
qed

text \<open>
  C6: when the table holds an employee with the trimmed id (an ASCII string),
  \<^verbatim>\<open>add_employee\<close> with that id raises \<open>ValueError\<close> and leaves the database, and so the
  stored record, as it was; when the other arguments are valid (an ASCII name that is not
  empty after trimming, a rate and dependents that are not negative) the exception is the
  one of the duplicate check.
\<close>

theorem add_employee_duplicate_rejected:
  "is_ascii eid \<Longrightarrow> get_employee db (strip eid) \<noteq> None \<Longrightarrow>
   snd (add_employee db eid nm rate deps) = db \<and>
   raised_class (fst (add_employee db eid nm rate deps)) = Some ValueError \<and>
   (strip eid \<noteq> [] \<and> is_ascii nm \<and> strip nm \<noteq> [] \<and> 0 \<le> rate \<and> 0 \<le> deps \<longrightarrow>
      fst (add_employee db eid nm rate deps) =
        Inl (Exn ValueError (''Employee with ID '' @ quoted (strip eid) @ '' already exists'')))"
  using add_employee_existing [of db eid nm rate deps]
  by (auto simp: raised_class_def)

theorem add_employee_duplicate_rejected_witness:
  "is_ascii '' T002 '' \<and> is_ascii ''Dup User'' \<and>
   get_employee db_one (strip '' T002 '') =
     Some \<lparr>row_id = ''T002'', row_name = ''Overtime User'', row_hourly_rate = 10,
            row_dependents = 0\<rparr> \<and>
   add_employee db_one '' T002 '' ''Dup User'' 30 0 =
     (Inl (Exn ValueError (''Employee with ID '' @ quoted ''T002'' @ '' already exists'')), db_one) \<and>
   get_employee (snd (add_employee db_one '' T002 '' ''Dup User'' 30 0)) ''T002'' =
     Some \<lparr>row_id = ''T002'', row_name = ''Overtime User'', row_hourly_rate = 10,
            row_dependents = 0\<rparr>"
proof -
  have trimmed: "strip '' T002 '' = ''T002''" "strip ''Dup User'' = ''Dup User''"
    by (simp_all add: strip_def isspace_def)
  have stored: "get_employee db_one ''T002'' =
     Some \<lparr>row_id = ''T002'', row_name = ''Overtime User'', row_hourly_rate = 10,
            row_dependents = 0\<rparr>"
    by (simp add: db_one_eq get_employee_def select_employee_def)
  then have present: "get_employee db_one (strip '' T002 '') \<noteq> None"
    by (simp add: trimmed)
  have ascii: "is_ascii '' T002 ''" "is_ascii ''Dup User''"
    by (simp_all add: is_ascii_def)
  from add_employee_duplicate_rejected [OF ascii(1) present, of "''Dup User''" 30 0] ascii(2)
  have "add_employee db_one '' T002 '' ''Dup User'' 30 0 =
     (Inl (Exn ValueError (''Employee with ID '' @ quoted ''T002'' @ '' already exists'')), db_one)"
    by (simp add: trimmed prod_eq_iff)
  with stored ascii show ?thesis by (simp add: trimmed)
qed

text \<open>
  Dependents that do not fit the 64-bit INTEGER are refused when the statement binds its
  parameters, after the checks of the method itself; nothing is stored.
\<close>

lemma update_employee_dependents_overflow:
  assumes "get_employee db eid \<noteq> None"
    and "\<forall>n. nm = Some n \<longrightarrow> is_ascii n \<and> strip n \<noteq> []"
    and "\<forall>h. rate = Some h \<longrightarrow> is_binary64 h \<and> 0 \<le> h"
    and "2 ^ 63 \<le> d"
  shows "update_employee db eid nm rate (Some d) = (Inl int_too_large, db)"
proof -
  have "(0::int) < 2 ^ 63" by simp
  with assms(4) have "\<not> d < 0" by linarith
  with assms show ?thesis
    by (cases nm; cases rate) (auto simp: update_employee_def update_employees_def Let_def)
qed

lemma add_employee_dependents_overflow:
  assumes "strip eid \<noteq> []" and "strip nm \<noteq> []" and "0 \<le> rate" and "2 ^ 63 \<le> deps"
    and "get_employee db (strip eid) = None" and "is_ascii eid" and "is_ascii nm"
    and "is_binary64 rate"
  shows "add_employee db eid nm rate deps = (Inl int_too_large, db)"
proof -
  have "(0::int) < 2 ^ 63" by simp
  with assms(4) have "\<not> deps < 0" by linarith
  with assms show ?thesis
    by (auto simp: add_employee_def insert_employee_def Let_def)
qed

section \<open>Properties of the time entries\<close>

lemma record_hours_unknown:
  "0 \<le> h \<Longrightarrow> get_employee db eid = None \<Longrightarrow>
   record_hours self today db eid h d =
     (Inl (Exn ValueError (''Employee '' @ quoted eid @ '' does not exist'')), db)"
  by (simp add: record_hours_def get_employee_def)

lemma record_hours_negative:
  "h < 0 \<Longrightarrow>
   record_hours self today db eid h d =
     (Inl (Exn ValueError ''Hours worked cannot be negative''), db)"
  by (simp add: record_hours_def)

text \<open>
  C5, as the code has it: for hours that are not negative and an id that is not in the
  table, \<^verbatim>\<open>record_hours\<close> raises \<open>ValueError\<close>, the class it also raises for negative
  hours (the two differ in their message only), and leaves the database as it was.
\<close>

theorem record_hours_unknown_employee:
  "0 \<le> h \<Longrightarrow> get_employee db eid = None \<Longrightarrow>
   record_hours self today db eid h d =
     (Inl (Exn ValueError (''Employee '' @ quoted eid @ '' does not exist'')), db)"
  by (rule record_hours_unknown)

theorem record_hours_unknown_employee_witness:
  "(0::rat) \<le> 8 \<and> get_employee db_one ''E404'' = None \<and>
   record_hours default_TimeTracker ''2024-01-01'' db_one ''E404'' 8 None =
     (Inl (Exn ValueError (''Employee '' @ quoted ''E404'' @ '' does not exist'')), db_one)"
proof -
  have nonneg: "(0::rat) \<le> 8" by simp
  have absent: "get_employee db_one ''E404'' = None"
    by (simp add: db_one_eq get_employee_def select_employee_def)
  from record_hours_unknown_employee [OF nonneg absent] nonneg absent
  show ?thesis by simp
qed

text \<open>
  C5 as stated fails: the exception for an unknown employee is of the same class as the
  one for negative hours.
\<close>

theorem record_hours_unknown_employee_same_class:
  "raised_class (fst (record_hours default_TimeTracker ''2024-01-01'' db_one ''E404'' 8 None)) =
     Some ValueError \<and>
   raised_class (fst (record_hours default_TimeTracker ''2024-01-01'' db_one ''T002'' (- 8) None)) =
     Some ValueError \<and>
   raised_class (fst (record_hours default_TimeTracker ''2024-01-01'' db_one ''E404'' 8 None)) =
   raised_class (fst (record_hours default_TimeTracker ''2024-01-01'' db_one ''T002'' (- 8) None))"
proof -
  have absent: "get_employee db_one ''E404'' = None"
    by (simp add: db_one_eq get_employee_def select_employee_def)
  show ?thesis
    by (simp add: record_hours_unknown [OF _ absent] record_hours_negative raised_class_def)
qed

section \<open>Deleting an employee\<close>

lemma fsub_50_40: "fsub 50 40 = 10"
  by code_simp

lemma db_T002_eq:
  "db_T002 = \<lparr>employees = [\<lparr>row_id = ''T002'', row_name = ''Overtime User'',
                             row_hourly_rate = 10, row_dependents = 0\<rparr>],
             time_entries = [\<lparr>entry_id = 1, entry_employee_id = ''T002'',
                                entry_date = ''2024-01-01'', entry_regular_hours = 40,
                                entry_overtime_hours = 10\<rparr>],
             entry_seq = 1\<rparr>"
  by (simp add: db_T002_def db_one_eq record_hours_def select_employee_def
      default_TimeTracker_def new_TimeTracker_def insert_time_entry_def sqlite3_connect_def
      fsub_50_40)

lemma get_employee_after_delete: "get_employee (delete_employee c db eid) eid = None"
  by (simp add: delete_employee_def delete_employees_def Let_def get_employee_def
      select_employee_def find_None_iff)

lemma calculate_employee_pay_after_delete:
  "calculate_employee_pay (delete_employee c db eid) eid =
     Inl (Exn KeyError (''Employee '' @ quoted eid @ '' not found''))"
  by (simp add: calculate_employee_pay_def get_employee_after_delete)

lemma delete_employee_keeps_time_entries:
  "time_entries (delete_employee sqlite3_connect db eid) = time_entries db"
  by (simp add: delete_employee_def delete_employees_def sqlite3_connect_def)

lemma delete_employee_cascade_when_enforced:
  "foreign_keys c \<Longrightarrow> get_employee db eid \<noteq> None \<Longrightarrow>
   entries_of (delete_employee c db eid) eid = []"
  by (simp add: delete_employee_def delete_employees_def Let_def entries_of_def
      get_employee_def select_employee_None_iff filter_empty_conv)

text \<open>
  C1 at the database of the test: after \<^verbatim>\<open>delete_employee("T002")\<close> the employee is gone
  and \<^verbatim>\<open>calculate_employee_pay\<close> raises \<open>KeyError\<close>, but the time entry recorded for
  \<^verbatim>\<open>T002\<close> is still in the table.
\<close>

theorem delete_employee_leaves_time_entries:
  "get_employee (delete_employee sqlite3_connect db_T002 ''T002'') ''T002'' = None \<and>
   calculate_employee_pay (delete_employee sqlite3_connect db_T002 ''T002'') ''T002'' =
     Inl (Exn KeyError (''Employee '' @ quoted ''T002'' @ '' not found'')) \<and>
   entries_of (delete_employee sqlite3_connect db_T002 ''T002'') ''T002'' =
     [\<lparr>entry_id = 1, entry_employee_id = ''T002'', entry_date = ''2024-01-01'',
       entry_regular_hours = 40, entry_overtime_hours = 10\<rparr>]"
  by (simp add: get_employee_after_delete calculate_employee_pay_after_delete
      entries_of_def delete_employee_keeps_time_entries db_T002_eq)

text \<open>
  A consequence: an employee added later under the deleted id is summed over the entries
  the deleted employee left behind.
\<close>

lemma readded_employee_inherits_entries:
  "summarise_hours
     (snd (add_employee (delete_employee sqlite3_connect db_T002 ''T002'')
             ''T002'' ''New Hire'' 12 0)) ''T002'' = (40, 10)"
proof -
  have trimmed: "strip ''New Hire'' = ''New Hire''"
    by (simp add: strip_def isspace_def)
  have sums: "fadd 0 40 = 40" "fadd 0 10 = 10"
    by code_simp+
  show ?thesis
    by (simp add: db_T002_eq delete_employee_def delete_employees_def sqlite3_connect_def
        add_employee_def get_employee_def select_employee_def insert_employee_def trimmed
        Let_def summarise_hours_def entries_of_def sql_sum_def or_zero_def sums)
qed

section \<open>Payroll for all employees\<close>

lemma calculate_employee_pay_id:
  "calculate_employee_pay db eid = Inr p \<Longrightarrow> employee_id p = eid"
  by (auto simp: calculate_employee_pay_def Let_def split: option.splits prod.splits)

lemma calculate_employee_pay_present:
  "get_employee db eid \<noteq> None \<Longrightarrow> \<exists>p. calculate_employee_pay db eid = Inr p"
  by (auto simp: calculate_employee_pay_def Let_def split: option.splits prod.splits)

lemma calculate_loop_results:
  assumes "\<forall>r \<in> set rows. get_employee db (row_id r) \<noteq> None"
  shows "\<exists>ps. calculate_loop db rows acc = Inr (acc @ ps) \<and>
           map Inr ps = map (\<lambda>r. calculate_employee_pay db (row_id r)) rows"
  using assms
proof (induction rows arbitrary: acc)
  case Nil
  then show ?case by simp
next
  case (Cons row rows)
  from Cons.prems obtain p where p: "calculate_employee_pay db (row_id row) = Inr p"
    using calculate_employee_pay_present by force
  from Cons.prems have "\<forall>r \<in> set rows. get_employee db (row_id r) \<noteq> None" by simp
  from Cons.IH [OF this, of "acc @ [p]"] obtain ps where
    ps: "calculate_loop db rows (acc @ [p]) = Inr ((acc @ [p]) @ ps)"
        "map Inr ps = map (\<lambda>r. calculate_employee_pay db (row_id r)) rows"
    by blast
  have "calculate_loop db (row # rows) acc = Inr (acc @ (p # ps))"
    using p ps(1) by simp
  moreover have "map Inr (p # ps) = map (\<lambda>r. calculate_employee_pay db (row_id r)) (row # rows)"
    using p ps(2) by simp
  ultimately show ?case by blast
qed

lemma list_employees_set: "set (list_employees db) = set (employees db)"
  by (simp add: list_employees_def select_employees_ordered_def)

lemma list_employees_sorted: "sorted (map row_id (list_employees db))"
  by (simp add: list_employees_def select_employees_ordered_def)

lemma distinct_map_sort_key: "distinct (map f (sort_key f xs)) = distinct (map f xs)"
  by (induction xs) (auto simp: sort_key_simps distinct_insort_key)

lemma listed_present:
  "r \<in> set (list_employees db) \<Longrightarrow> get_employee db (row_id r) \<noteq> None"
  by (simp add: list_employees_set get_employee_def select_employee_None_iff)

lemma map_Inr_ids:
  assumes "map Inr ps = map (\<lambda>r. calculate_employee_pay db (row_id r)) rows"
  shows "map employee_id ps = map row_id rows"
  using assms
proof (induction rows arbitrary: ps)
  case Nil
  then show ?case by simp
next
  case (Cons r rows)
  then obtain p ps' where ps: "ps = p # ps'" by (cases ps) auto
  with Cons.prems have "calculate_employee_pay db (row_id r) = Inr p"
    and "map Inr ps' = map (\<lambda>r. calculate_employee_pay db (row_id r)) rows"
    by auto
  then show ?case using ps Cons.IH calculate_employee_pay_id by auto
qed

text \<open>
  C8: \<^verbatim>\<open>calculate_all\<close> returns (it does not raise) one result for each row of
  \<^verbatim>\<open>list_employees\<close>, in that order, which ascends by id (strictly, as ids are unique
  under the primary key), and each result is the one \<^verbatim>\<open>calculate_employee_pay\<close> gives for
  that id on the same database.
\<close>

theorem calculate_all_matches_list:
  "\<exists>results. calculate_all db = Inr results \<and>
      length results = length (list_employees db) \<and>
      map employee_id results = map row_id (list_employees db) \<and>
      sorted (map employee_id results) \<and>
      (distinct (map row_id (employees db)) \<longrightarrow> sorted_wrt (<) (map employee_id results)) \<and>
      map Inr results = map (\<lambda>r. calculate_employee_pay db (row_id r)) (list_employees db)"
proof -
  have "\<forall>r \<in> set (list_employees db). get_employee db (row_id r) \<noteq> None"
    using listed_present by blast
  from calculate_loop_results [OF this, of "[]"] obtain ps where
    ps: "calculate_all db = Inr ps"
        "map Inr ps = map (\<lambda>r. calculate_employee_pay db (row_id r)) (list_employees db)"
    by (auto simp: calculate_all_def)
  have ids: "map employee_id ps = map row_id (list_employees db)"
    using ps(2) by (rule map_Inr_ids)
  have len: "length ps = length (list_employees db)"
    using ids by (metis length_map)
  have srt: "sorted (map employee_id ps)"
    by (simp add: ids list_employees_sorted)
  have "distinct (map row_id (employees db)) \<Longrightarrow> sorted_wrt (<) (map employee_id ps)"
    using srt
    by (simp add: strict_sorted_iff ids list_employees_def select_employees_ordered_def
        distinct_map_sort_key)
  with ps ids len srt show ?thesis by blast
qed

theorem calculate_all_matches_list_witness:
  "distinct (map row_id (employees db_two)) \<and>
   map row_id (employees db_two) = [''E002'', ''E001''] \<and>
   map_sum id (map employee_id) (calculate_all db_two) = Inr [''E001'', ''E002''] \<and>
   map_sum id (map Inr) (calculate_all db_two) =
     Inr [calculate_employee_pay db_two ''E001'', calculate_employee_pay db_two ''E002'']"
proof -
  have listed: "map row_id (list_employees db_two) = [''E001'', ''E002'']"
    by (simp add: db_two_eq list_employees_def select_employees_ordered_def)
  have stored: "map row_id (employees db_two) = [''E002'', ''E001'']"
    by (simp add: db_two_eq)
  from calculate_all_matches_list [of db_two] obtain results where
    r: "calculate_all db_two = Inr results"
       "map employee_id results = map row_id (list_employees db_two)"
       "map Inr results = map (\<lambda>r. calculate_employee_pay db_two (row_id r)) (list_employees db_two)"
    by blast
  have "map (\<lambda>r. calculate_employee_pay db_two (row_id r)) (list_employees db_two) =
        map (calculate_employee_pay db_two) (map row_id (list_employees db_two))"
    by (simp add: comp_def)
  with r listed stored show ?thesis by simp
qed

section \<open>Splitting hours into regular and overtime\<close>

lemma pow2_pos: "0 < pow2 e"
  by (simp add: pow2_def)

lemma round_half_even_nonneg: "0 \<le> x \<Longrightarrow> 0 \<le> round_half_even x"
  by (auto simp: round_half_even_def Let_def)

lemma round_half_even_nonpos:
  assumes "x \<le> 0"
  shows "round_half_even x \<le> 0"
proof (cases "x = 0")
  case True
  then show ?thesis by (simp add: round_half_even_def)
next
  case False
  with assms have "x < 0" by simp
  then have "\<lfloor>x\<rfloor> < 0" by (simp add: floor_less_iff)
  then show ?thesis by (auto simp: round_half_even_def Let_def)
qed

lemma fl_nonneg: "0 \<le> x \<Longrightarrow> 0 \<le> fl x"
  by (simp add: fl_def Let_def pow2_pos round_half_even_nonneg less_imp_le)

lemma fl_nonpos: "x \<le> 0 \<Longrightarrow> fl x \<le> 0"
  by (simp add: fl_def Let_def pow2_pos round_half_even_nonpos less_imp_le
      mult_le_0_iff divide_le_0_iff)

lemma record_hours_valid:
  assumes "0 \<le> h" and "0 \<le> overtime_threshold self" and "get_employee db eid \<noteq> None"
  shows "record_hours self today db eid h d =
     (Inr (), db\<lparr>time_entries := time_entries db @
                   [\<lparr>entry_id = Suc (entry_seq db), entry_employee_id = eid,
                     entry_date = (case d of None \<Rightarrow> today | Some x \<Rightarrow> x),
                     entry_regular_hours = min h (overtime_threshold self),
                     entry_overtime_hours = max 0 (fsub h (overtime_threshold self))\<rparr>],
                 entry_seq := Suc (entry_seq db)\<rparr>)"
  using assms
  by (simp add: record_hours_def get_employee_def insert_time_entry_def Let_def)

lemma split_exact:
  assumes "h \<le> t \<or> fsub h t = h - t"
  shows "min h t + max 0 (fsub h t) = h"
proof (cases "h \<le> t")
  case True
  then have "fsub h t \<le> 0" by (simp add: fsub_def fl_nonpos)
  with True show ?thesis by simp
next
  case False
  with assms have "fsub h t = h - t" by simp
  with False show ?thesis by simp
qed

lemma fl_whole_hours: "fl 50 = 50" "fl 40 = 40"
  by code_simp+

lemma fl_3_10: "fl (3 / 10) = 5404319552844595 / 18014398509481984"
  by code_simp

lemma fl_9_10: "fl (9 / 10) = 8106479329266893 / 9007199254740992"
  by code_simp

lemma fsub_9_10_3_10:
  "fsub (8106479329266893 / 9007199254740992) (5404319552844595 / 18014398509481984) =
   1351079888211149 / 2251799813685248"
  by code_simp

lemma fadd_3_10_6_10:
  "fadd (5404319552844595 / 18014398509481984) (1351079888211149 / 2251799813685248) =
   4053239664633447 / 4503599627370496"
  by code_simp

text \<open>
  C2, as the code has it: for float hours that are not negative, a float threshold that
  is not negative and an employee in the table, \<^verbatim>\<open>record_hours\<close> appends one entry whose regular
  hours are \<open>min hours threshold\<close> and whose overtime hours are \<open>max 0\<close> of the float
  difference \<open>hours - threshold\<close>. The two add up to the hours exactly when the hours do
  not exceed the threshold, and whenever the float difference is the exact difference.
\<close>

theorem record_hours_splits_at_threshold:
  "is_binary64 h \<Longrightarrow> is_binary64 (overtime_threshold self) \<Longrightarrow>
   0 \<le> h \<Longrightarrow> 0 \<le> overtime_threshold self \<Longrightarrow> get_employee db eid \<noteq> None \<Longrightarrow>
   record_hours self today db eid h d =
     (Inr (), db\<lparr>time_entries := time_entries db @
                   [\<lparr>entry_id = Suc (entry_seq db), entry_employee_id = eid,
                     entry_date = (case d of None \<Rightarrow> today | Some x \<Rightarrow> x),
                     entry_regular_hours = min h (overtime_threshold self),
                     entry_overtime_hours = max 0 (fsub h (overtime_threshold self))\<rparr>],
                 entry_seq := Suc (entry_seq db)\<rparr>) \<and>
   (h \<le> overtime_threshold self \<or> fsub h (overtime_threshold self) = h - overtime_threshold self
      \<longrightarrow> min h (overtime_threshold self) + max 0 (fsub h (overtime_threshold self)) = h)"
  by (simp add: record_hours_valid split_exact)

theorem record_hours_splits_at_threshold_witness:
  "is_binary64 50 \<and> is_binary64 (overtime_threshold default_TimeTracker) \<and>
   (0::rat) \<le> 50 \<and> 0 \<le> overtime_threshold default_TimeTracker \<and>
   get_employee db_one ''T002'' \<noteq> None \<and>
   fsub 50 (overtime_threshold default_TimeTracker) = 50 - overtime_threshold default_TimeTracker \<and>
   record_hours default_TimeTracker ''2024-01-01'' db_one ''T002'' 50 None =
     (Inr (), \<lparr>employees = [\<lparr>row_id = ''T002'', row_name = ''Overtime User'',
                              row_hourly_rate = 10, row_dependents = 0\<rparr>],
              time_entries = [\<lparr>entry_id = 1, entry_employee_id = ''T002'',
                                 entry_date = ''2024-01-01'', entry_regular_hours = 40,
                                 entry_overtime_hours = 10\<rparr>],
              entry_seq = 1\<rparr>) \<and>
   min 50 (overtime_threshold default_TimeTracker) +
     max 0 (fsub 50 (overtime_threshold default_TimeTracker)) = 50"
proof -
  have thr: "overtime_threshold default_TimeTracker = 40"
    by (simp add: default_TimeTracker_def new_TimeTracker_def)
  have h: "(0::rat) \<le> 50" by simp
  have t: "0 \<le> overtime_threshold default_TimeTracker" by (simp add: thr)
  have present: "get_employee db_one ''T002'' \<noteq> None"
    by (simp add: db_one_eq get_employee_def select_employee_def)
  have exact: "fsub 50 (overtime_threshold default_TimeTracker) =
               50 - overtime_threshold default_TimeTracker"
    by (simp add: thr fsub_50_40)
  have b: "is_binary64 50" "is_binary64 (overtime_threshold default_TimeTracker)"
    by (simp_all add: thr is_binary64_def fl_whole_hours)
  from record_hours_splits_at_threshold [OF b h t present, of "''2024-01-01''" None] exact
  have "record_hours default_TimeTracker ''2024-01-01'' db_one ''T002'' 50 None =
     (Inr (), \<lparr>employees = [\<lparr>row_id = ''T002'', row_name = ''Overtime User'',
                              row_hourly_rate = 10, row_dependents = 0\<rparr>],
              time_entries = [\<lparr>entry_id = 1, entry_employee_id = ''T002'',
                                 entry_date = ''2024-01-01'', entry_regular_hours = 40,
                                 entry_overtime_hours = 10\<rparr>],
              entry_seq = 1\<rparr>)"
    and "min 50 (overtime_threshold default_TimeTracker) +
         max 0 (fsub 50 (overtime_threshold default_TimeTracker)) = 50"
    by (simp_all add: thr fsub_50_40 db_one_eq)
  with b h t present exact show ?thesis by simp
qed

text \<open>
  C2 as stated fails twice. With the threshold \<open>-1\<close> the regular hours would be \<open>-1\<close>, the
  CHECK constraint of \<^verbatim>\<open>regular_hours\<close> rejects the row and nothing is stored. With the
  threshold 0.3 and 0.9 hours an entry is stored, but its overtime hours are the float
  0.6000000000000001 and regular plus overtime is not the float 0.9, neither as an exact
  sum nor as a float sum.
\<close>

theorem record_hours_split_counterexample:
  "record_hours (new_TimeTracker (- 1)) ''2024-01-01'' db_one ''T002'' 5 None =
     (Inl (Exn IntegrityError ''CHECK constraint failed: regular_hours >= 0''), db_one) \<and>
   time_entries (snd (record_hours (new_TimeTracker (fl (3 / 10))) ''2024-01-01'' db_one
                       ''T002'' (fl (9 / 10)) None)) =
     [\<lparr>entry_id = 1, entry_employee_id = ''T002'', entry_date = ''2024-01-01'',
       entry_regular_hours = 5404319552844595 / 18014398509481984,
       entry_overtime_hours = 1351079888211149 / 2251799813685248\<rparr>] \<and>
   fl (9 / 10) = 8106479329266893 / 9007199254740992 \<and>
   (5404319552844595 / 18014398509481984 + 1351079888211149 / 2251799813685248 :: rat) \<noteq>
     8106479329266893 / 9007199254740992 \<and>
   fadd (5404319552844595 / 18014398509481984) (1351079888211149 / 2251799813685248) \<noteq>
     8106479329266893 / 9007199254740992"
proof -
  have first: "record_hours (new_TimeTracker (- 1)) ''2024-01-01'' db_one ''T002'' 5 None =
     (Inl (Exn IntegrityError ''CHECK constraint failed: regular_hours >= 0''), db_one)"
    by (simp add: record_hours_def new_TimeTracker_def db_one_eq select_employee_def
        insert_time_entry_def)
  have second: "time_entries (snd (record_hours (new_TimeTracker (fl (3 / 10))) ''2024-01-01''
                       db_one ''T002'' (fl (9 / 10)) None)) =
     [\<lparr>entry_id = 1, entry_employee_id = ''T002'', entry_date = ''2024-01-01'',
       entry_regular_hours = 5404319552844595 / 18014398509481984,
       entry_overtime_hours = 1351079888211149 / 2251799813685248\<rparr>]"
    by (simp add: record_hours_def new_TimeTracker_def db_one_eq select_employee_def
        insert_time_entry_def sqlite3_connect_def fl_3_10 fl_9_10 fsub_9_10_3_10)
  have third: "(5404319552844595 / 18014398509481984 + 1351079888211149 / 2251799813685248 :: rat) \<noteq>
     8106479329266893 / 9007199254740992"
    by simp
  have fourth: "fadd (5404319552844595 / 18014398509481984) (1351079888211149 / 2251799813685248) \<noteq>
     8106479329266893 / 9007199254740992"
    by (simp add: fadd_3_10_6_10)
  from first second fl_9_10 third fourth show ?thesis
    by blast
qed

section \<open>Totals of the recorded hours\<close>

lemma get_employee_time_entries_update [simp]:
  "get_employee (db\<lparr>time_entries := es, entry_seq := n\<rparr>) k = get_employee db k"
  by (simp add: get_employee_def select_employee_def)

lemma entries_of_append:
  "entries_of (db\<lparr>time_entries := time_entries db @ [e], entry_seq := n\<rparr>) k =
   entries_of db k @ (if entry_employee_id e = k then [e] else [])"
  by (simp add: entries_of_def)

lemma or_zero_sql_sum: "or_zero (sql_sum xs) = foldl fadd 0 xs"
  by (simp add: or_zero_def sql_sum_def)

lemma summarise_hours_sums:
  "summarise_hours db eid =
     (foldl fadd 0 (map entry_regular_hours (entries_of db eid)),
      foldl fadd 0 (map entry_overtime_hours (entries_of db eid)))"
  by (simp add: summarise_hours_def or_zero_sql_sum)

lemma record_all_entries:
  assumes "get_employee db eid \<noteq> None" and "0 \<le> overtime_threshold self"
    and "\<forall>h \<in> set hs. 0 \<le> h"
  shows "get_employee (record_all self today db eid hs) eid = get_employee db eid \<and>
     map entry_regular_hours (entries_of (record_all self today db eid hs) eid) =
       map entry_regular_hours (entries_of db eid) @ map (\<lambda>h. min h (overtime_threshold self)) hs \<and>
     map entry_overtime_hours (entries_of (record_all self today db eid hs) eid) =
       map entry_overtime_hours (entries_of db eid) @
       map (\<lambda>h. max 0 (fsub h (overtime_threshold self))) hs"
  using assms
proof (induction hs arbitrary: db)
  case Nil
  then show ?case by simp
next
  case (Cons h hs)
  let ?db' = "snd (record_hours self today db eid h None)"
  have h: "0 \<le> h" using Cons.prems(3) by simp
  have step: "?db' = db\<lparr>time_entries := time_entries db @
                   [\<lparr>entry_id = Suc (entry_seq db), entry_employee_id = eid,
                     entry_date = today,
                     entry_regular_hours = min h (overtime_threshold self),
                     entry_overtime_hours = max 0 (fsub h (overtime_threshold self))\<rparr>],
                 entry_seq := Suc (entry_seq db)\<rparr>"
    using record_hours_valid [OF h Cons.prems(2) Cons.prems(1), of today None] by simp
  have present': "get_employee ?db' eid \<noteq> None"
    using Cons.prems(1) by (simp add: step)
  have rest: "\<forall>h \<in> set hs. 0 \<le> h" using Cons.prems(3) by simp
  from Cons.IH [OF present' Cons.prems(2) rest]
  show ?case
    by (simp add: step entries_of_append)
qed


lemma float_sums:
  "fadd 0 38 = 38" "fadd 38 5 = 43" "fadd 0 25 = 25" "fadd 25 25 = 50" "fadd 0 0 = 0"
  "fadd 0 40 = 40" "fadd 0 10 = 10" "fadd 40 10 = 50"
  by code_simp+

lemma float_differences:
  "fsub 38 40 = - 2" "fsub 5 40 = - 35" "fsub 25 40 = - 15"
  by code_simp+

lemma default_threshold [simp]: "overtime_threshold default_TimeTracker = 40"
  by (simp add: default_TimeTracker_def new_TimeTracker_def)

lemma exact_sums_foldl: "exact_sums s xs \<Longrightarrow> foldl fadd s xs = s + sum_list xs"
  by (induction xs arbitrary: s) simp_all

lemma summarise_hours_recorded:
  assumes "get_employee db eid \<noteq> None" and "entries_of db eid = []"
    and "0 \<le> overtime_threshold self" and "\<forall>h \<in> set hs. 0 \<le> h"
  shows "summarise_hours (record_all self today db eid hs) eid =
        (foldl fadd 0 (map (\<lambda>h. min h (overtime_threshold self)) hs),
         foldl fadd 0 (map (\<lambda>h. max 0 (fsub h (overtime_threshold self))) hs))"
  using record_all_entries [OF assms(1) assms(3) assms(4), of today] assms(2)
  by (simp add: summarise_hours_sums)

text \<open>
  C9: \<^verbatim>\<open>summarise_hours\<close> returns the sums of the regular and of the overtime hours of the
  employee's entries, and each entry holds the split of its own recording against the
  threshold: after recordings \<open>hs\<close> (floats, as the threshold) for an employee without
  earlier entries the totals are the sums of \<open>min h threshold\<close> and of
  \<open>max 0 (h - threshold)\<close> over \<open>hs\<close>, provided the float additions of the two sums are
  exact. With the threshold 40, recordings of 38 and 5 hours give 43 regular and no
  overtime hours, two recordings of 25 hours give 50 regular and no overtime hours;
  without entries the result is \<open>(0, 0)\<close>.
\<close>

theorem summarise_hours_sums_independent_splits:
  "(get_employee db eid \<noteq> None \<and> entries_of db eid = [] \<and>
    is_binary64 (overtime_threshold self) \<and> 0 \<le> overtime_threshold self \<and>
    (\<forall>h \<in> set hs. is_binary64 h \<and> 0 \<le> h) \<and>
    exact_sums 0 (map (\<lambda>h. min h (overtime_threshold self)) hs) \<and>
    exact_sums 0 (map (\<lambda>h. max 0 (fsub h (overtime_threshold self))) hs) \<longrightarrow>
      summarise_hours (record_all self today db eid hs) eid =
        (sum_list (map (\<lambda>h. min h (overtime_threshold self)) hs),
         sum_list (map (\<lambda>h. max 0 (fsub h (overtime_threshold self))) hs))) \<and>
   (get_employee db eid \<noteq> None \<and> entries_of db eid = [] \<longrightarrow>
      summarise_hours (record_all default_TimeTracker today db eid [38, 5]) eid = (43, 0) \<and>
      summarise_hours (record_all default_TimeTracker today db eid [25, 25]) eid = (50, 0)) \<and>
   (entries_of db eid = [] \<longrightarrow> summarise_hours db eid = (0, 0))"
proof -
  have general: "summarise_hours (record_all self today db eid hs) eid =
        (sum_list (map (\<lambda>h. min h (overtime_threshold self)) hs),
         sum_list (map (\<lambda>h. max 0 (fsub h (overtime_threshold self))) hs))"
    if "get_employee db eid \<noteq> None" "entries_of db eid = []" "0 \<le> overtime_threshold self"
      "\<forall>h \<in> set hs. is_binary64 h \<and> 0 \<le> h"
      "exact_sums 0 (map (\<lambda>h. min h (overtime_threshold self)) hs)"
      "exact_sums 0 (map (\<lambda>h. max 0 (fsub h (overtime_threshold self))) hs)"
  proof -
    from that(4) have "\<forall>h \<in> set hs. 0 \<le> h" by simp
    from summarise_hours_recorded [OF that(1) that(2) that(3) this, of today]
    show ?thesis
      by (simp add: exact_sums_foldl [OF that(5)] exact_sums_foldl [OF that(6)])
  qed
  have first: "summarise_hours (record_all default_TimeTracker today db eid [38, 5]) eid = (43, 0)"
    if "get_employee db eid \<noteq> None" "entries_of db eid = []"
    using summarise_hours_recorded [OF that, of default_TimeTracker "[38, 5]" today]
    by (simp add: float_sums float_differences)
  have second: "summarise_hours (record_all default_TimeTracker today db eid [25, 25]) eid = (50, 0)"
    if "get_employee db eid \<noteq> None" "entries_of db eid = []"
    using summarise_hours_recorded [OF that, of default_TimeTracker "[25, 25]" today]
    by (simp add: float_sums float_differences)
  have none: "summarise_hours db eid = (0, 0)" if "entries_of db eid = []"
    using that by (simp add: summarise_hours_sums)
  from general first second none show ?thesis by blast
qed

theorem summarise_hours_sums_independent_splits_witness:
  "get_employee db_one ''T002'' \<noteq> None \<and> entries_of db_one ''T002'' = [] \<and>
   is_binary64 (overtime_threshold default_TimeTracker) \<and>
   0 \<le> overtime_threshold default_TimeTracker \<and>
   is_binary64 50 \<and> is_binary64 38 \<and>
   exact_sums 0 (map (\<lambda>h. min h (overtime_threshold default_TimeTracker)) [50, 38]) \<and>
   exact_sums 0 (map (\<lambda>h. max 0 (fsub h (overtime_threshold default_TimeTracker))) [50, 38]) \<and>
   summarise_hours (record_all default_TimeTracker ''2024-01-01'' db_one ''T002'' [50, 38]) ''T002'' =
     (78, 10) \<and>
   summarise_hours (record_all default_TimeTracker ''2024-01-01'' db_one ''T002'' [38, 5]) ''T002'' =
     (43, 0) \<and>
   summarise_hours (record_all default_TimeTracker ''2024-01-01'' db_one ''T002'' [25, 25]) ''T002'' =
     (50, 0) \<and>
   summarise_hours db_one ''T002'' = (0, 0)"
proof -
  have present: "get_employee db_one ''T002'' \<noteq> None"
    by (simp add: db_one_eq get_employee_def select_employee_def)
  have empty: "entries_of db_one ''T002'' = []"
    by (simp add: db_one_eq entries_of_def)
  have fl38: "fl 38 = 38" by code_simp
  have b: "is_binary64 (overtime_threshold default_TimeTracker)" "is_binary64 50" "is_binary64 38"
    by (simp_all add: is_binary64_def fl_whole_hours fl38)
  have hs: "\<forall>h \<in> set [50, 38 :: rat]. is_binary64 h \<and> 0 \<le> h"
    using b by simp
  have more_sums: "fadd 40 38 = 78" "fadd 10 0 = 10"
    by code_simp+
  have exact: "exact_sums 0 (map (\<lambda>h. min h (overtime_threshold default_TimeTracker)) [50, 38])"
    "exact_sums 0 (map (\<lambda>h. max 0 (fsub h (overtime_threshold default_TimeTracker))) [50, 38])"
    by (simp_all add: float_sums more_sums fsub_50_40 float_differences)
  from summarise_hours_sums_independent_splits
    [of db_one "''T002''" default_TimeTracker "[50, 38]" "''2024-01-01''"] present empty b hs exact
  show ?thesis
    by (simp add: fsub_50_40 float_differences)
qed

section \<open>Pay of one employee\<close>

lemma pay_550:
  "gross_of 10 40 10 = 550" "round2 550 = 550"
  "round2 (state_tax_of 550) = fl (308 / 10)"
  "round2 (federal_tax_of 550) = fl (4345 / 100)"
  "round2 (net_of 550) = 47575 / 100"
  by code_simp+

lemma calculate_employee_pay_present_eq:
  "get_employee db eid = Some row \<Longrightarrow>
   calculate_employee_pay db eid =
     (let reg_hours = foldl fadd 0 (map entry_regular_hours (entries_of db eid));
          ot_hours = foldl fadd 0 (map entry_overtime_hours (entries_of db eid));
          gross = gross_of (row_hourly_rate row) reg_hours ot_hours
      in Inr \<lparr>employee_id = eid, name = row_name row, hours_worked = fadd reg_hours ot_hours,
             hourly_rate = row_hourly_rate row, regular_hours = reg_hours,
             overtime_hours = ot_hours, gross_pay = round2 gross,
             state_tax = round2 (state_tax_of gross),
             federal_tax = round2 (federal_tax_of gross),
             net_pay = round2 (net_of gross)\<rparr>)"
  by (simp add: calculate_employee_pay_def summarise_hours_sums Let_def)

text \<open>
  C3: for an employee with the hourly rate 10 whose only entry is a recording of 50 hours
  (threshold 40), \<^verbatim>\<open>calculate_employee_pay\<close> returns 40 regular and 10 overtime hours, gross
  pay 550, and as state tax, federal tax and net pay the floats of 30.80, 43.45 and 475.75.
\<close>

theorem calculate_employee_pay_50_hours:
  "get_employee db eid = Some row \<Longrightarrow> row_hourly_rate row = 10 \<Longrightarrow> entries_of db eid = [] \<Longrightarrow>
   calculate_employee_pay (snd (record_hours default_TimeTracker today db eid 50 d)) eid =
     Inr \<lparr>employee_id = eid, name = row_name row, hours_worked = 50, hourly_rate = 10,
           regular_hours = 40, overtime_hours = 10, gross_pay = 550,
           state_tax = fl (3080 / 100), federal_tax = fl (4345 / 100),
           net_pay = fl (47575 / 100)\<rparr>"
proof -
  assume row: "get_employee db eid = Some row" and rate: "row_hourly_rate row = 10"
    and empty: "entries_of db eid = []"
  let ?db' = "snd (record_hours default_TimeTracker today db eid 50 d)"
  have step: "?db' = db\<lparr>time_entries := time_entries db @
                   [\<lparr>entry_id = Suc (entry_seq db), entry_employee_id = eid,
                     entry_date = (case d of None \<Rightarrow> today | Some x \<Rightarrow> x),
                     entry_regular_hours = 40, entry_overtime_hours = 10\<rparr>],
                 entry_seq := Suc (entry_seq db)\<rparr>"
    using record_hours_valid [of 50 default_TimeTracker db eid today d] row
    by (simp add: fsub_50_40)
  have row': "get_employee ?db' eid = Some row"
    using row by (simp add: step)
  have entries: "entries_of ?db' eid =
     [\<lparr>entry_id = Suc (entry_seq db), entry_employee_id = eid,
       entry_date = (case d of None \<Rightarrow> today | Some x \<Rightarrow> x),
       entry_regular_hours = 40, entry_overtime_hours = 10\<rparr>]"
    by (simp add: step entries_of_append empty)
  have exact: "fl (47575 / 100) = 47575 / 100"
    by code_simp
  show ?thesis
    unfolding calculate_employee_pay_present_eq [OF row'] entries exact
    by (simp add: rate float_sums pay_550)
qed

theorem calculate_employee_pay_50_hours_witness:
  "get_employee db_one ''T002'' =
     Some \<lparr>row_id = ''T002'', row_name = ''Overtime User'', row_hourly_rate = 10,
            row_dependents = 0\<rparr> \<and>
   entries_of db_one ''T002'' = [] \<and>
   calculate_employee_pay db_T002 ''T002'' =
     Inr \<lparr>employee_id = ''T002'', name = ''Overtime User'', hours_worked = 50, hourly_rate = 10,
           regular_hours = 40, overtime_hours = 10, gross_pay = 550,
           state_tax = fl (3080 / 100), federal_tax = fl (4345 / 100),
           net_pay = fl (47575 / 100)\<rparr>"
proof -
  have row: "get_employee db_one ''T002'' =
     Some \<lparr>row_id = ''T002'', row_name = ''Overtime User'', row_hourly_rate = 10,
            row_dependents = 0\<rparr>"
    by (simp add: db_one_eq get_employee_def select_employee_def)
  have rate: "row_hourly_rate \<lparr>row_id = ''T002'', row_name = ''Overtime User'',
      row_hourly_rate = 10, row_dependents = 0\<rparr> = 10"
    by simp
  have empty: "entries_of db_one ''T002'' = []"
    by (simp add: db_one_eq entries_of_def)
  from calculate_employee_pay_50_hours [OF row rate empty, of "''2024-01-01''" None]
  have "calculate_employee_pay db_T002 ''T002'' =
     Inr \<lparr>employee_id = ''T002'', name = ''Overtime User'', hours_worked = 50, hourly_rate = 10,
           regular_hours = 40, overtime_hours = 10, gross_pay = 550,
           state_tax = fl (3080 / 100), federal_tax = fl (4345 / 100),
           net_pay = fl (47575 / 100)\<rparr>"
    by (simp add: db_T002_def)
  with row empty show ?thesis by blast
qed

section \<open>The rounding error of float operations\<close>

lemma pow2_powi: "pow2 e = 2 powi e"
  by (simp add: pow2_def power_int_def power_one_over inverse_eq_divide)

lemma pow2_diff: "pow2 (a - b) = pow2 a / pow2 b"
  by (simp add: pow2_powi power_int_diff)

lemma bits_bounds: "0 < n \<Longrightarrow> 2 ^ (bits n - 1) \<le> n \<and> n < 2 ^ bits n"
proof (induction n rule: bits.induct)
  case (1 n)
  show ?case
  proof (cases "n div 2 = 0")
    case True
    with "1.prems" have "n = 1" by (simp add: div_eq_0_iff) 
    moreover have "bits (Suc 0) = Suc 0"
      by (simp add: bits.simps [of "Suc 0"] bits.simps [of 0])
    ultimately show ?thesis by simp
  next
    case False
    then have pos: "0 < n div 2" by simp
    from "1.prems" have n0: "n \<noteq> 0" by simp
    from "1.IH" [OF n0 pos] have IH: "2 ^ (bits (n div 2) - 1) \<le> n div 2" "n div 2 < 2 ^ bits (n div 2)"
      by simp_all
    have b: "bits n = Suc (bits (n div 2))" using n0 by (simp add: bits.simps [of n])
    have bpos: "0 < bits (n div 2)" using pos by (simp add: bits.simps [of "n div 2"])
    then have "(2::nat) ^ bits (n div 2) = 2 * 2 ^ (bits (n div 2) - 1)"
      by (cases "bits (n div 2)") simp_all
    with IH(1) have lo: "(2::nat) ^ bits (n div 2) \<le> n" by linarith
    from IH(2) have "n < 2 * 2 ^ bits (n div 2)" by linarith
    with lo show ?thesis by (simp add: b)
  qed
qed


lemma exponent_le:
  assumes "x \<noteq> 0"
  shows "pow2 (exponent x) \<le> \<bar>x\<bar>"
proof (cases "1 \<le> \<bar>x\<bar>")
  case True
  define n where "n = nat \<lfloor>\<bar>x\<bar>\<rfloor>"
  from True have fl1: "1 \<le> \<lfloor>\<bar>x\<bar>\<rfloor>" by (simp add: le_floor_iff)
  then have npos: "0 < n" by (simp add: n_def)
  have e: "exponent x = int (bits n) - 1"
    using True by (simp add: exponent_def n_def)
  have bpos: "0 < bits n" using npos by (simp add: bits.simps [of n])
  then have "pow2 (exponent x) = 2 ^ (bits n - 1)"
    by (simp add: e pow2_def nat_diff_distrib')
  also have "\<dots> \<le> of_nat n"
  proof -
    from bits_bounds [OF npos] have "(of_nat (2 ^ (bits n - 1)) :: rat) \<le> of_nat n"
      by (simp only: of_nat_le_iff)
    then show ?thesis by simp
  qed
  also have "\<dots> = of_int \<lfloor>\<bar>x\<bar>\<rfloor>"
    using fl1 by (simp add: n_def)
  also have "\<dots> \<le> \<bar>x\<bar>" by simp
  finally show ?thesis .
next
  case False
  define y where "y = 1 / \<bar>x\<bar>"
  define m where "m = nat (\<lceil>y\<rceil> - 1)"
  from assms have xpos: "0 < \<bar>x\<bar>" by simp
  from False xpos have y1: "1 < y" by (simp add: y_def)
  then have c2: "2 \<le> \<lceil>y\<rceil>" by (simp add: le_ceiling_iff)
  then have mpos: "0 < m" by (simp add: m_def)
  have e: "exponent x = - int (bits m)"
    using False by (simp add: exponent_def m_def y_def)
  from bits_bounds [OF mpos] have "m + 1 \<le> 2 ^ bits m" by simp
  then have "int (m + 1) \<le> int (2 ^ bits m)"
    by (simp only: of_nat_le_iff)
  then have "int m + 1 \<le> 2 ^ bits m" by simp
  with c2 have "\<lceil>y\<rceil> \<le> 2 ^ bits m" by (simp add: m_def)
  then have "(of_int \<lceil>y\<rceil> :: rat) \<le> 2 ^ bits m"
    by (simp only: of_int_le_numeral_power_cancel_iff)
  with le_of_int_ceiling [of y] have "y \<le> 2 ^ bits m"
    by (rule order_trans)
  then have "1 / 2 ^ bits m \<le> \<bar>x\<bar>"
    using xpos by (simp add: y_def field_simps)
  moreover have "pow2 (exponent x) = 1 / 2 ^ bits m"
    by (simp add: e pow2_def)
  ultimately show ?thesis by simp
qed

lemma round_half_even_error: "\<bar>of_int (round_half_even x) - x\<bar> \<le> 1 / 2"
proof -
  have "of_int \<lfloor>x\<rfloor> \<le> x" "x < of_int \<lfloor>x\<rfloor> + 1" by linarith+
  then show ?thesis
    by (auto simp: round_half_even_def Let_def abs_le_iff)
qed


lemma pow2_add: "pow2 (a + b) = pow2 a * pow2 b"
  by (simp add: pow2_powi power_int_add)

lemma pow2_mono: "a \<le> b \<Longrightarrow> pow2 a \<le> pow2 b"
  by (simp add: pow2_powi power_int_increasing)

lemma pow2_half: "pow2 (a - 1) = pow2 a / 2"
  by (simp add: pow2_diff) (simp add: pow2_def)

lemma fl_error: "\<bar>fl x - x\<bar> \<le> \<bar>x\<bar> * pow2 (- 53) + pow2 (- 1075)"
proof (cases "x = 0")
  case True
  then show ?thesis by (simp add: fl_def less_imp_le pow2_pos)
next
  case False
  define e where "e = max (exponent x) (- 1022)"
  define u where "u = pow2 (e - 52)"
  define r where "r = round_half_even (x / u)"
  have upos: "0 < u" by (simp add: u_def pow2_pos)
  have flx: "fl x = of_int r * u"
    using False by (simp add: fl_def Let_def e_def u_def r_def)
  have "of_int r * u - x = (of_int r - x / u) * u"
    using upos by (simp add: field_simps)
  then have "\<bar>of_int r * u - x\<bar> = \<bar>of_int r - x / u\<bar> * u"
    using upos by (simp add: abs_mult)
  also have "\<dots> \<le> (1 / 2) * u"
    using round_half_even_error [of "x / u"] upos
    by (intro mult_right_mono) (simp_all add: r_def)
  finally have step: "\<bar>fl x - x\<bar> \<le> u / 2" by (simp add: flx)
  have "u / 2 \<le> \<bar>x\<bar> * pow2 (- 53) + pow2 (- 1075)"
  proof (cases "- 1022 \<le> exponent x")
    case True
    then have "e = exponent x" by (simp add: e_def)
    then have "u / 2 = pow2 (exponent x) * pow2 (- 53)"
      using pow2_add [of "exponent x" "- 53"] pow2_half [of "exponent x - 52"]
      by (simp add: u_def)
    also have "\<dots> \<le> \<bar>x\<bar> * pow2 (- 53)"
      using exponent_le [OF False] pow2_pos [of "- 53"] by (simp add: mult_right_mono)
    finally show ?thesis using pow2_pos [of "- 1075"] by linarith
  next
    case False
    then have "e = - 1022" by (simp add: e_def)
    then have "u / 2 = pow2 (- 1075)"
      using pow2_half [of "- 1074"] by (simp add: u_def)
    then show ?thesis using pow2_pos [of "- 53"] by (simp add: less_imp_le)
  qed
  with step show ?thesis by linarith
qed


lemma fl_close: "\<bar>fl x - x\<bar> \<le> (\<bar>x\<bar> + 1) / 2 ^ 53"
proof -
  have p53: "pow2 (- 53) = 1 / 2 ^ 53" by (simp add: pow2_def)
  have "pow2 (- 1075) \<le> pow2 (- 53)" by (rule pow2_mono) simp
  then have "\<bar>x\<bar> * pow2 (- 53) + pow2 (- 1075) \<le> \<bar>x\<bar> * (1 / 2 ^ 53) + 1 / 2 ^ 53"
    by (simp add: p53)
  also have "\<dots> = (\<bar>x\<bar> + 1) / 2 ^ 53"
    by (simp add: add_divide_distrib)
  finally show ?thesis
    using fl_error [of x] by linarith
qed

lemma fl_bound:
  assumes "\<bar>x\<bar> \<le> b"
  shows "\<bar>fl x - x\<bar> \<le> (b + 1) / 2 ^ 53" and "\<bar>fl x\<bar> \<le> b + (b + 1) / 2 ^ 53"
proof -
  have "(\<bar>x\<bar> + 1) / 2 ^ 53 \<le> (b + 1) / 2 ^ 53"
    using assms by (simp add: divide_right_mono)
  with fl_close [of x] show "\<bar>fl x - x\<bar> \<le> (b + 1) / 2 ^ 53" by linarith
  with assms show "\<bar>fl x\<bar> \<le> b + (b + 1) / 2 ^ 53" by linarith
qed

lemma round2_bound:
  assumes "\<bar>x\<bar> \<le> b"
  shows "\<bar>round2 x - x\<bar> \<le> 1 / 200 + (b + 2) / 2 ^ 53"
proof -
  define y :: rat where "y = of_int (round_half_even (x * 100)) / 100"
  have "y - x = (of_int (round_half_even (x * 100)) - x * 100) / 100"
    by (simp add: y_def field_simps)
  then have "\<bar>y - x\<bar> = \<bar>(of_int (round_half_even (x * 100)) - x * 100) / 100\<bar>"
    by (simp only:)
  then have "\<bar>y - x\<bar> = \<bar>of_int (round_half_even (x * 100)) - x * 100\<bar> / 100"
    by (simp only: abs_divide)
  with round_half_even_error [of "x * 100"] have yx: "\<bar>y - x\<bar> \<le> 1 / 200"
    by simp
  with assms have "\<bar>y\<bar> \<le> b + 1" by linarith
  from fl_bound(1) [OF this] have "\<bar>fl y - y\<bar> \<le> (b + 2) / 2 ^ 53" by simp
  with yx show ?thesis unfolding round2_def y_def [symmetric] by linarith
qed

lemma tax_rates:
  "0 \<le> STATE_TAX_RATE" "STATE_TAX_RATE \<le> 57 / 1000"
  "0 \<le> FEDERAL_TAX_RATE" "FEDERAL_TAX_RATE \<le> 80 / 1000"
  by code_simp+

lemma scaled_bound:
  assumes "\<bar>g\<bar> \<le> b" and "0 \<le> c" and "c \<le> k"
  shows "\<bar>g * c\<bar> \<le> b * (k::rat)"
proof -
  have "\<bar>g * c\<bar> = \<bar>g\<bar> * \<bar>c\<bar>" by (rule abs_mult)
  also have "\<bar>c\<bar> = c" using assms(2) by (rule abs_of_nonneg)
  finally have "\<bar>g * c\<bar> = \<bar>g\<bar> * c" .
  also have "\<dots> \<le> b * k"
    using assms by (intro mult_mono) simp_all
  finally show ?thesis .
qed

lemma rounded_net_close:
  assumes g: "\<bar>g\<bar> \<le> 10 ^ 9"
  shows "\<bar>round2 (net_of g) - (round2 g - round2 (state_tax_of g) - round2 (federal_tax_of g))\<bar>
           \<le> 2 / 100 + 1 / 10 ^ 6"
proof -
  define S where "S = state_tax_of g"
  define F where "F = federal_tax_of g"
  define A where "A = fsub g S"
  define N where "N = fsub A F"
  have N: "net_of g = N" by (simp add: net_of_def N_def A_def S_def F_def)
  from g have g: "\<bar>g\<bar> \<le> 1000000000" by simp
  have p53: "(2::rat) ^ 53 = 9007199254740992" by simp
  have ps: "\<bar>g * STATE_TAX_RATE\<bar> \<le> 57000000"
    using scaled_bound [OF g tax_rates(1) tax_rates(2)] by simp
  have pf: "\<bar>g * FEDERAL_TAX_RATE\<bar> \<le> 80000000"
    using scaled_bound [OF g tax_rates(3) tax_rates(4)] by simp
  have S: "\<bar>S\<bar> \<le> 58000000"
    using fl_bound(2) [OF ps] by (simp add: S_def state_tax_of_def fmul_def)
  have F: "\<bar>F\<bar> \<le> 81000000"
    using fl_bound(2) [OF pf] by (simp add: F_def federal_tax_of_def fmul_def)
  have a: "\<bar>g - S\<bar> \<le> 1058000000" using g S by linarith
  have dA: "\<bar>A - (g - S)\<bar> \<le> 1058000001 / 2 ^ 53"
    using fl_bound(1) [OF a] by (simp add: A_def fsub_def)
  have A: "\<bar>A\<bar> \<le> 1059000000"
    using fl_bound(2) [OF a] by (simp add: A_def fsub_def)
  have b: "\<bar>A - F\<bar> \<le> 1140000000" using A F by linarith
  have dN: "\<bar>N - (A - F)\<bar> \<le> 1140000001 / 2 ^ 53"
    using fl_bound(1) [OF b] by (simp add: N_def fsub_def)
  have Nb: "\<bar>N\<bar> \<le> 1141000000"
    using fl_bound(2) [OF b] by (simp add: N_def fsub_def)
  have rN: "\<bar>round2 N - N\<bar> \<le> 1 / 200 + 1141000002 / 2 ^ 53"
    using round2_bound [OF Nb] by simp
  have rg: "\<bar>round2 g - g\<bar> \<le> 1 / 200 + 1000000002 / 2 ^ 53"
    using round2_bound [OF g] by simp
  have rS: "\<bar>round2 S - S\<bar> \<le> 1 / 200 + 58000002 / 2 ^ 53"
    using round2_bound [OF S] by simp
  have rF: "\<bar>round2 F - F\<bar> \<le> 1 / 200 + 81000002 / 2 ^ 53"
    using round2_bound [OF F] by simp
  have "\<bar>round2 N - (round2 g - round2 S - round2 F)\<bar> \<le>
      \<bar>round2 N - N\<bar> + \<bar>N - (A - F)\<bar> + \<bar>A - (g - S)\<bar> + \<bar>round2 g - g\<bar> +
      \<bar>round2 S - S\<bar> + \<bar>round2 F - F\<bar>"
    by linarith
  also have "\<dots> \<le> 4 / 200 + 4478000010 / 2 ^ 53"
    using rN dN dA rg rS rF unfolding p53 by linarith
  also have "\<dots> \<le> 2 / 100 + 1 / 10 ^ 6" by simp
  finally show ?thesis by (simp add: N S_def F_def)
qed

section \<open>Rounding of the pay result\<close>

lemma fsub_39_40: "fsub 39 40 = - 1"
  by code_simp

lemma db_half_eq:
  "db_half = \<lparr>employees = [\<lparr>row_id = ''E001'', row_name = ''Alice Example'',
                             row_hourly_rate = 73 / 2, row_dependents = 0\<rparr>],
             time_entries = [\<lparr>entry_id = 1, entry_employee_id = ''E001'',
                                entry_date = ''2024-01-01'', entry_regular_hours = 39,
                                entry_overtime_hours = 0\<rparr>],
             entry_seq = 1\<rparr>"
  by (simp add: db_half_def add_employee_def new_database_def get_employee_def
      select_employee_def insert_employee_def record_hours_def insert_time_entry_def
      sqlite3_connect_def fsub_39_40)

lemma float_sums_39: "fadd 0 39 = 39" "fadd 39 0 = 39"
  by code_simp+

lemma pay_half:
  "gross_of (73 / 2) 39 0 = 2847 / 2" "round2 (2847 / 2) = 2847 / 2"
  "round2 (state_tax_of (2847 / 2)) = fl (7972 / 100)"
  "round2 (federal_tax_of (2847 / 2)) = fl (11246 / 100)"
  "round2 (net_of (2847 / 2)) = fl (123133 / 100)"
  by code_simp+

lemma pay_half_result:
  "calculate_employee_pay db_half ''E001'' =
     Inr \<lparr>employee_id = ''E001'', name = ''Alice Example'', hours_worked = 39,
           hourly_rate = 73 / 2, regular_hours = 39, overtime_hours = 0,
           gross_pay = 2847 / 2, state_tax = fl (7972 / 100),
           federal_tax = fl (11246 / 100), net_pay = fl (123133 / 100)\<rparr>"
proof -
  have row: "get_employee db_half ''E001'' =
      Some \<lparr>row_id = ''E001'', row_name = ''Alice Example'', row_hourly_rate = 73 / 2,
             row_dependents = 0\<rparr>"
    by (simp add: db_half_eq get_employee_def select_employee_def)
  have entries: "entries_of db_half ''E001'' =
      [\<lparr>entry_id = 1, entry_employee_id = ''E001'', entry_date = ''2024-01-01'',
        entry_regular_hours = 39, entry_overtime_hours = 0\<rparr>]"
    by (simp add: db_half_eq entries_of_def)
  show ?thesis
    unfolding calculate_employee_pay_present_eq [OF row] entries
    by (simp add: float_sums float_sums_39 pay_half)
qed

lemma pay_half_differs:
  "fl (123133 / 100) \<noteq> 2847 / 2 - fl (7972 / 100) - fl (11246 / 100)"
  "fl (123133 / 100) \<noteq> fsub (fsub (2847 / 2) (fl (7972 / 100))) (fl (11246 / 100))"
  "9 / 1000 < fl (123133 / 100) - (2847 / 2 - fl (7972 / 100) - fl (11246 / 100))"
  by code_simp+

lemma calculate_employee_pay_fields:
  assumes "calculate_employee_pay db eid = Inr p"
  shows "gross_pay p = round2 (unrounded_gross p)"
    and "state_tax p = round2 (state_tax_of (unrounded_gross p))"
    and "federal_tax p = round2 (federal_tax_of (unrounded_gross p))"
    and "net_pay p = round2 (net_of (unrounded_gross p))"
  using assms
  by (auto simp: calculate_employee_pay_def unrounded_gross_def Let_def
      split: option.splits prod.splits)

text \<open>
  C4, as the code has it: each of the four amounts of a result is an unrounded amount
  rounded to two decimal places when the result is built: the unrounded gross pay, the two
  taxes computed from the unrounded gross pay, and the net pay computed from these
  unrounded amounts by two float subtractions. The rounded amounts satisfy
  \<open>net = gross - state tax - federal tax\<close> up to rounding only: for a gross pay of at most
  \<open>10^9\<close> the two sides differ by at most 0.020001.
\<close>

theorem calculate_employee_pay_rounds_at_output:
  "calculate_employee_pay db eid = Inr p \<Longrightarrow>
   gross_pay p = round2 (unrounded_gross p) \<and>
   state_tax p = round2 (fmul (unrounded_gross p) STATE_TAX_RATE) \<and>
   federal_tax p = round2 (fmul (unrounded_gross p) FEDERAL_TAX_RATE) \<and>
   net_pay p =
     round2 (fsub (fsub (unrounded_gross p) (fmul (unrounded_gross p) STATE_TAX_RATE))
               (fmul (unrounded_gross p) FEDERAL_TAX_RATE)) \<and>
   (\<bar>unrounded_gross p\<bar> \<le> 10 ^ 9 \<longrightarrow>
      \<bar>net_pay p - (gross_pay p - state_tax p - federal_tax p)\<bar> \<le> 2 / 100 + 1 / 10 ^ 6)"
  using calculate_employee_pay_fields [of db eid p] rounded_net_close [of "unrounded_gross p"]
  by (simp add: state_tax_of_def federal_tax_of_def net_of_def)

theorem calculate_employee_pay_rounds_at_output_witness:
  "calculate_employee_pay db_half ''E001'' =
     Inr \<lparr>employee_id = ''E001'', name = ''Alice Example'', hours_worked = 39,
           hourly_rate = 73 / 2, regular_hours = 39, overtime_hours = 0,
           gross_pay = 2847 / 2, state_tax = fl (7972 / 100),
           federal_tax = fl (11246 / 100), net_pay = fl (123133 / 100)\<rparr> \<and>
   \<bar>gross_of (73 / 2) 39 0\<bar> \<le> 10 ^ 9 \<and>
   \<bar>fl (123133 / 100) - (2847 / 2 - fl (7972 / 100) - fl (11246 / 100))\<bar> \<le> 2 / 100 + 1 / 10 ^ 6"
proof -
  have small: "\<bar>gross_of (73 / 2) 39 0\<bar> \<le> 10 ^ 9"
    by (simp add: pay_half)
  let ?p = "\<lparr>employee_id = ''E001'', name = ''Alice Example'', hours_worked = 39,
           hourly_rate = 73 / 2, regular_hours = 39, overtime_hours = 0,
           gross_pay = 2847 / 2, state_tax = fl (7972 / 100),
           federal_tax = fl (11246 / 100), net_pay = fl (123133 / 100)\<rparr>"
  have sel: "unrounded_gross ?p = gross_of (73 / 2) 39 0" "gross_pay ?p = 2847 / 2"
    "state_tax ?p = fl (7972 / 100)" "federal_tax ?p = fl (11246 / 100)"
    "net_pay ?p = fl (123133 / 100)"
    by (simp_all add: unrounded_gross_def)
  from calculate_employee_pay_rounds_at_output [OF pay_half_result]
  have "\<bar>unrounded_gross ?p\<bar> \<le> 10 ^ 9 \<longrightarrow>
      \<bar>net_pay ?p - (gross_pay ?p - state_tax ?p - federal_tax ?p)\<bar> \<le> 2 / 100 + 1 / 10 ^ 6"
    by blast
  then have "\<bar>fl (123133 / 100) - (2847 / 2 - fl (7972 / 100) - fl (11246 / 100))\<bar>
          \<le> 2 / 100 + 1 / 10 ^ 6"
    using small unfolding sel by blast
  with pay_half_result small show ?thesis by blast
qed

text \<open>
  C4 as stated fails: for the rate 36.50 and 39 hours the result has gross pay 1423.50,
  state tax 79.72, federal tax 112.46 and net pay 1231.33, while
  \<open>1423.50 - 79.72 - 112.46\<close> is 1231.32.
\<close>

theorem rounded_net_pay_identity_counterexample:
  "calculate_employee_pay db_half ''E001'' =
     Inr \<lparr>employee_id = ''E001'', name = ''Alice Example'', hours_worked = 39,
           hourly_rate = 73 / 2, regular_hours = 39, overtime_hours = 0,
           gross_pay = 2847 / 2, state_tax = fl (7972 / 100),
           federal_tax = fl (11246 / 100), net_pay = fl (123133 / 100)\<rparr> \<and>
   fl (123133 / 100) \<noteq> 2847 / 2 - fl (7972 / 100) - fl (11246 / 100) \<and>
   fl (123133 / 100) \<noteq> fsub (fsub (2847 / 2) (fl (7972 / 100))) (fl (11246 / 100)) \<and>
   9 / 1000 < fl (123133 / 100) - (2847 / 2 - fl (7972 / 100) - fl (11246 / 100))"
  using pay_half_result pay_half_differs by blast

end
